theory Spec2Isabelle
  imports Main
begin

text \<open>
  A model of the parts of the AWS CDK sources that create RDS parameter groups and
  database instances, DMS replication tasks, client VPN endpoints, exports and imports of
  constructs and asset archives, together with the token resolution engine and the
  reference tracker as the specification describes them, and the properties proved of
  the model.
\<close>

chapter \<open>The model\<close>

section \<open>JavaScript values and errors\<close>

text \<open>
  A thrown \<open>new Error(message)\<close> is the value \<open>Error message\<close>. The construction error
  of the construct tree for a second child with the same id under one parent, whose
  message the sources do not give, is \<open>DuplicateSiblingId parent id\<close>.
\<close>

datatype error = Error string | DuplicateSiblingId "string list" string

text \<open>
  Truthiness of an optional string, number, boolean and object: an absent value, the
  empty string, zero and \<open>false\<close> are falsy.
\<close>

fun truthy_string :: "string option \<Rightarrow> bool" where
  "truthy_string None = False"
| "truthy_string (Some s) = (s \<noteq> [])"

fun truthy_number :: "int option \<Rightarrow> bool" where
  "truthy_number None = False"
| "truthy_number (Some n) = (n \<noteq> 0)"

fun truthy_bool :: "bool option \<Rightarrow> bool" where
  "truthy_bool None = False"
| "truthy_bool (Some b) = b"

fun truthy_object :: "'a option \<Rightarrow> bool" where
  "truthy_object None = False"
| "truthy_object (Some x) = True"

text \<open>
  A regular expression that is a plain word, such as \<open>/aurora/\<close>, has no anchor:
  \<open>test\<close> is true when the word occurs somewhere in the subject.
\<close>

fun starts_with :: "string \<Rightarrow> string \<Rightarrow> bool" where
  "starts_with [] s = True"
| "starts_with (p # ps) [] = False"
| "starts_with (p # ps) (c # cs) = (p = c \<and> starts_with ps cs)"

fun regex_test_word :: "string \<Rightarrow> string \<Rightarrow> bool" where
  "regex_test_word w [] = starts_with w []"
| "regex_test_word w (c # cs) = (starts_with w (c # cs) \<or> regex_test_word w cs)"

text \<open>Decimal digits, the number a string of digits writes, and the digits of a number.\<close>

definition is_digit :: "char \<Rightarrow> bool" where
  "is_digit c = (c \<in> set ''0123456789'')"

text \<open>The place of a character in a string, counted from 0 (the length when it is not there).\<close>

fun place_in :: "char \<Rightarrow> string \<Rightarrow> nat" where
  "place_in c [] = 0"
| "place_in c (d # ds) = (if d = c then 0 else Suc (place_in c ds))"

definition digit_value :: "char \<Rightarrow> nat" where
  "digit_value c = place_in c ''0123456789''"

definition decimal_value :: "string \<Rightarrow> nat" where
  "decimal_value s = foldl (\<lambda>n c. 10 * n + digit_value c) 0 s"

function digits_of :: "nat \<Rightarrow> string" where
  "digits_of n =
     (if n < 10 then [''0123456789'' ! n]
      else digits_of (n div 10) @ [''0123456789'' ! (n mod 10)])"
  by pat_completeness auto
termination
  by (relation "measure (\<lambda>n. n)") auto

declare digits_of.simps [simp del]

definition decimal :: "int \<Rightarrow> string" where
  "decimal i = (if i < 0 then CHR ''-'' # digits_of (nat (- i)) else digits_of (nat i))"

section \<open>RDS parameter groups\<close>

text \<open>
  The class \<open>ParameterGroup\<close> keeps its parameters in a plain JavaScript object
  (\<open>Parameters = {[key: string]: any}\<close>). The object is modelled as an association list
  with distinct keys, in the order in which JavaScript lists the keys; \<open>setParameter\<close>
  takes \<open>string | undefined\<close>, so the values are strings and \<open>undefined\<close> is \<open>None\<close>.
\<close>

type_synonym Parameters = "(string \<times> string) list"

text \<open>\<open>Object.keys(o)\<close>: the own keys of the object.\<close>

definition keys :: "Parameters \<Rightarrow> string list" where
  "keys ps = map fst ps"

text \<open>
  \<open>key in o\<close>, for the own keys. (For a name inherited from \<open>Object.prototype\<close> the
  JavaScript test is true as well, but the \<open>delete\<close> that follows it in \<open>setParameter\<close>
  removes own properties only, so the outcome is the same.)
\<close>

definition key_in :: "string \<Rightarrow> Parameters \<Rightarrow> bool" where
  "key_in k ps = (k \<in> set (keys ps))"

text \<open>\<open>delete o[key]\<close>.\<close>

definition delete_key :: "string \<Rightarrow> Parameters \<Rightarrow> Parameters" where
  "delete_key k ps = filter (\<lambda>kv. fst kv \<noteq> k) ps"

text \<open>
  \<open>o[key] = value\<close>. An existing key keeps its place and gets the new value. A new key
  takes its place in the order in which JavaScript lists the own keys of an object: the
  keys that are array indices (the canonical decimal numerals below \<open>2^32 - 1\<close>) come
  first, in ascending numeric order, and the other keys follow in the order in which they
  were added. Assigning a string to the key \<open>__proto__\<close> of an object literal goes to
  the inherited setter, which ignores a value that is neither an object nor null, so no
  own property is created.
\<close>

definition is_index_key :: "string \<Rightarrow> bool" where
  "is_index_key k =
     (k \<noteq> [] \<and> list_all is_digit k \<and> (k = ''0'' \<or> hd k \<noteq> CHR ''0'')
      \<and> decimal_value k < 4294967295)"

fun replace_key :: "string \<Rightarrow> string \<Rightarrow> Parameters \<Rightarrow> Parameters" where
  "replace_key k v [] = []"
| "replace_key k v (kv # ps) = (if fst kv = k then (k, v) # ps else kv # replace_key k v ps)"

fun insert_index_key :: "string \<Rightarrow> string \<Rightarrow> Parameters \<Rightarrow> Parameters" where
  "insert_index_key k v [] = [(k, v)]"
| "insert_index_key k v (kv # ps) =
     (if is_index_key (fst kv) \<and> decimal_value (fst kv) < decimal_value k
      then kv # insert_index_key k v ps
      else (k, v) # kv # ps)"

definition store_key :: "string \<Rightarrow> string \<Rightarrow> Parameters \<Rightarrow> Parameters" where
  "store_key k v ps =
     (if key_in k ps then replace_key k v ps
      else if is_index_key k then insert_index_key k v ps
      else ps @ [(k, v)])"

definition assign_key :: "string \<Rightarrow> string \<Rightarrow> Parameters \<Rightarrow> Parameters" where
  "assign_key k v ps = (if k = ''__proto__'' then ps else store_key k v ps)"

record ParameterGroupProps =
  family :: string
  props_description :: "string option"
  props_parameters :: "Parameters option"

text \<open>The fields of a \<open>ParameterGroup\<close> instance.\<close>

record ParameterGroup =
  description :: string
  parameters :: Parameters

text \<open>
  Instances are mutable and are reached through references: the store maps a reference to
  the current state of the instance behind it.
\<close>

type_synonym ref = nat
type_synonym store = "ref \<Rightarrow> ParameterGroup"

text \<open>
  \<^verbatim>\<open>
  public setParameter(key: string, value: string | undefined) {
    if (value === undefined && key in this.parameters) {
      delete this.parameters[key];
    }
    if (value !== undefined) {
      this.parameters[key] = value;
    }
  }
  \<close>
\<close>

definition setParameter :: "ref \<Rightarrow> string \<Rightarrow> string option \<Rightarrow> store \<Rightarrow> store" where
  "setParameter this key val s =
     (let s1 = (if val = None \<and> key_in key (parameters (s this))
                then s(this := (s this)\<lparr>parameters := delete_key key (parameters (s this))\<rparr>)
                else s)
      in case val of
           None \<Rightarrow> s1
         | Some v \<Rightarrow> s1(this := (s1 this)\<lparr>parameters := assign_key key v (parameters (s1 this))\<rparr>))"

definition removeParameter :: "ref \<Rightarrow> string \<Rightarrow> store \<Rightarrow> store" where
  "removeParameter this key s = setParameter this key None s"

text \<open>
  \<^verbatim>\<open>
  protected validate(): string[] {
    if (Object.keys(this.parameters).length === 0) {
      return ['At least one parameter required, call setParameter().'];
    }
    return [];
  }
  \<close>
\<close>

definition validate :: "ref \<Rightarrow> store \<Rightarrow> string list" where
  "validate this s =
     (if length (keys (parameters (s this))) = 0
      then [''At least one parameter required, call setParameter().'']
      else [])"

text \<open>
  The constructor of \<open>ParameterGroup\<close>, after \<open>super(scope, id)\<close>: the field initialiser
  \<open>parameters = {}\<close>, the description (\<open>props.description || ...\<close>: an absent or empty
  description gives the generated one), and one \<open>setParameter\<close> for each entry of
  \<open>props.parameters || {}\<close>.
\<close>

fun setParameters :: "ref \<Rightarrow> Parameters \<Rightarrow> store \<Rightarrow> store" where
  "setParameters this [] s = s"
| "setParameters this (kv # kvs) s =
     setParameters this kvs (setParameter this (fst kv) (Some (snd kv)) s)"

definition new_ParameterGroup :: "ref \<Rightarrow> ParameterGroupProps \<Rightarrow> store \<Rightarrow> store" where
  "new_ParameterGroup this props s =
     (let d = (if truthy_string (props_description props) then the (props_description props)
               else ''Parameter group for '' @ family props);
          s0 = s(this := \<lparr>description = d, parameters = []\<rparr>)
      in setParameters this (case props_parameters props of None \<Rightarrow> [] | Some ps \<Rightarrow> ps) s0)"

text \<open>
  Modelled from the spec: the class \<open>cdk.Token\<close> is not among the sources. The spec gives
  a Token "a resolver function/closure producing the real value when invoked"; resolving
  the token invokes the closure. The closure of the source, \<open>() => this.parameters\<close>,
  captures the reference \<open>this\<close> and reads the instance at the time it is invoked, so
  the resolver is a function of the store. The value of a resolution is the content of
  the parameters object at that time: it is what resolution writes into the template.
\<close>

datatype 'a Token = Token "store \<Rightarrow> 'a"

fun resolve_token :: "'a Token \<Rightarrow> store \<Rightarrow> 'a" where
  "resolve_token (Token resolver) s = resolver s"

text \<open>
  The properties handed to the generated resource classes \<open>CfnDBClusterParameterGroup\<close>
  and \<open>CfnDBParameterGroup\<close>.
\<close>

record CfnParameterGroupProps =
  cfn_description :: string
  cfn_family :: string
  cfn_parameters :: "Parameters Token"

text \<open>
  \<^verbatim>\<open>
  constructor(scope: cdk.Construct, id: string, props: ParameterGroupProps) {
    super(scope, id, props);
    const parameterGroup = new CfnDBClusterParameterGroup(this, 'Resource', {
      description: this.description,
      family: props.family,
      parameters: new cdk.Token(() => this.parameters)
    });
    ...
  \<close>
  The constructor of \<open>InstanceParameterGroup\<close> is the same with \<open>CfnDBParameterGroup\<close>.
  The result is the resource's properties and the new store.
\<close>

definition new_ClusterParameterGroup ::
  "ref \<Rightarrow> ParameterGroupProps \<Rightarrow> store \<Rightarrow> CfnParameterGroupProps \<times> store" where
  "new_ClusterParameterGroup this props s =
     (let s' = new_ParameterGroup this props s
      in (\<lparr>cfn_description = description (s' this),
           cfn_family = family props,
           cfn_parameters = Token (\<lambda>st. parameters (st this))\<rparr>, s'))"

definition new_InstanceParameterGroup ::
  "ref \<Rightarrow> ParameterGroupProps \<Rightarrow> store \<Rightarrow> CfnParameterGroupProps \<times> store" where
  "new_InstanceParameterGroup this props s =
     (let s' = new_ParameterGroup this props s
      in (\<lparr>cfn_description = description (s' this),
           cfn_family = family props,
           cfn_parameters = Token (\<lambda>st. parameters (st this))\<rparr>, s'))"

text \<open>The store before any instance is created.\<close>

definition empty_store :: store where
  "empty_store = (\<lambda>_. \<lparr>description = [], parameters = []\<rparr>)"

section \<open>RDS database instances\<close>

datatype DatabaseInstanceEngine =
    Aurora | AuroraMysql | AuroraPostgresql | MariaDb | Mysql
  | OracleEE | OracleSE2 | OracleSE1 | OracleSE | Postgres
  | SqlServerEE | SqlServerSE | SqlServerEX | SqlServerWeb

text \<open>The string value of each member of the enum.\<close>

fun engine_value :: "DatabaseInstanceEngine \<Rightarrow> string" where
  "engine_value Aurora = ''aurora''"
| "engine_value AuroraMysql = ''aurora-mysql''"
| "engine_value AuroraPostgresql = ''aurora-postgresql''"
| "engine_value MariaDb = ''mariadb''"
| "engine_value Mysql = ''mysql''"
| "engine_value OracleEE = ''oracle-ee''"
| "engine_value OracleSE2 = ''oracle-se2''"
| "engine_value OracleSE1 = ''oracle-se1''"
| "engine_value OracleSE = ''oracle-se''"
| "engine_value Postgres = ''postgres''"
| "engine_value SqlServerEE = ''sqlserver-ee''"
| "engine_value SqlServerSE = ''sqlserver-se''"
| "engine_value SqlServerEX = ''sqlserver-ex''"
| "engine_value SqlServerWeb = ''sqlserver-web''"

datatype StorageType = Standard | GP2 | IO1

record Subnet =
  availabilityZone :: string
  subnetId :: string

text \<open>
  The objects the properties refer to, with the attributes the constructor reads.
  \<open>vpc_subnets\<close> is what \<open>props.vpc.subnets(this.vpcPlacement)\<close> returns.
\<close>

record IVpcNetwork =
  vpc_subnets :: "Subnet list"

record IDatabaseClusterRef =
  ref_clusterIdentifier :: string

record IDatabaseInstanceRef =
  ref_instanceIdentifier :: string

record IOptionGroupRef =
  ref_optionGroupName :: string

text \<open>
  The properties of \<open>DatabaseInstanceProps\<close> that the constructor's checks and the
  modelled attributes of the resource read. A property marked \<open>?\<close> in the source is an
  option; numbers are integers.
\<close>

record DatabaseInstanceProps =
  engine :: DatabaseInstanceEngine
  multiAz :: "bool option"
  storageType :: "StorageType option"
  allocatedStorage :: "int option"
  iops :: "int option"
  masterUsername :: "string option"
  masterUserPassword :: "string option"
  generateMasterUserPassword :: "bool option"
  vpc :: IVpcNetwork
  databaseName :: "string option"
  port :: "int option"
  optionGroup :: "IOptionGroupRef option"
  characterSetName :: "string option"
  backupRetentionPeriod :: "int option"
  preferredBackupWindow :: "string option"
  preferredMaintenanceWindow :: "string option"
  deletionProtection :: "bool option"
  snapshotIdentifier :: "string option"
  databaseCluster :: "IDatabaseClusterRef option"
  sourceDatabaseInstance :: "IDatabaseInstanceRef option"

text \<open>What the constructor leaves behind, as far as it is modelled.\<close>

record DatabaseInstance =
  has_secret :: bool
  cfn_engine :: DatabaseInstanceEngine
  cfn_dbClusterIdentifier :: "string option"
  cfn_multiAz :: bool
  cfn_storageType :: StorageType
  cfn_iops :: "int option"
  cfn_deletionProtection :: bool

text \<open>
  The constructor of \<open>DatabaseInstance\<close>, after \<open>super(scope, id)\<close>. Its three checks
  are in the order of the source; \<open>props.vpc\<close> is a required object, so it is truthy in
  the second check. The constructors of the child constructs are not among the sources
  and are taken to succeed.
  \<^verbatim>\<open>
    if (props.databaseCluster && /aurora/.test(props.engine)) {
      throw new Error('Cannot specify `databaseCluster` when engine is not aurora.');
    }
    if (props.databaseCluster && (
      props.allocatedStorage || props.backupRetentionPeriod || props.characterSetName ||
      props.databaseName || props.masterUsername || props.masterUserPassword ||
      props.optionGroup || props.preferredBackupWindow || props.preferredMaintenanceWindow ||
      props.port || props.sourceDatabaseInstance || props.storageType || props.vpc)) {
      throw new Error('Cannot specify `allocatedStorage`, ...')
    }
    ...
    const availabilityZones = new Set(subnets.map(s => s.availabilityZone));
    const multiAz = props.multiAz !== undefined ? props.multiAz : true;
    if (multiAz && availabilityZones.size < 2) {
      throw new Error(`Multi AZ requires at least 2 subnets in 2 different availability zones.`);
    }
  \<close>
\<close>

definition new_DatabaseInstance :: "DatabaseInstanceProps \<Rightarrow> error + DatabaseInstance" where
  "new_DatabaseInstance props =
    (if truthy_object (databaseCluster props)
        \<and> regex_test_word ''aurora'' (engine_value (engine props))
     then Inl (Error ''Cannot specify `databaseCluster` when engine is not aurora.'')
     else if truthy_object (databaseCluster props)
        \<and> (truthy_number (allocatedStorage props)
           \<or> truthy_number (backupRetentionPeriod props)
           \<or> truthy_string (characterSetName props)
           \<or> truthy_string (databaseName props)
           \<or> truthy_string (masterUsername props)
           \<or> truthy_string (masterUserPassword props)
           \<or> truthy_object (optionGroup props)
           \<or> truthy_string (preferredBackupWindow props)
           \<or> truthy_string (preferredMaintenanceWindow props)
           \<or> truthy_number (port props)
           \<or> truthy_object (sourceDatabaseInstance props)
           \<or> truthy_object (storageType props)
           \<or> True)
     then Inl (Error (''Cannot specify `allocatedStorage`, `backupRetentionPeriod`, ''
            @ ''`characterSetName`, `databaseName`, `masterUsername`, `masterPassword`, ''
            @ ''`optionGroup`, `preferredBackupWindows`, `port`, `sourceDatabaseInstance` ''
            @ ''when specifying `databaseCluster`.''))
     else
       let subnets = vpc_subnets (vpc props);
           availabilityZones = remdups (map availabilityZone subnets);
           multi = (case multiAz props of Some b \<Rightarrow> b | None \<Rightarrow> True)
       in if multi \<and> length availabilityZones < 2
          then Inl (Error ''Multi AZ requires at least 2 subnets in 2 different availability zones.'')
          else
            let st = (case storageType props of Some t \<Rightarrow> t | None \<Rightarrow> IO1)
            in Inr \<lparr>has_secret =
                       (truthy_bool (generateMasterUserPassword props)
                        \<or> (\<not> truthy_string (masterUserPassword props)
                            \<and> (\<not> truthy_string (snapshotIdentifier props)
                                \<or> \<not> truthy_object (sourceDatabaseInstance props)))),
                     cfn_engine = (if truthy_object (databaseCluster props) then Aurora
                                   else engine props),
                     cfn_dbClusterIdentifier =
                       (case databaseCluster props of None \<Rightarrow> None
                        | Some c \<Rightarrow> Some (ref_clusterIdentifier c)),
                     cfn_multiAz = multi,
                     cfn_storageType = st,
                     cfn_iops = (if st = IO1
                                 then Some (if truthy_number (iops props) then the (iops props)
                                            else 1000)
                                 else None),
                     cfn_deletionProtection =
                       (case deletionProtection props of Some b \<Rightarrow> b | None \<Rightarrow> True)\<rparr>)"

section \<open>DMS replication tasks\<close>

text \<open>
  \<^verbatim>\<open>const IDENTIFIER_REGEX = /^(?![\-0-9])(?!.*--)[A-Za-z0-9-]{1,255}(?<!-)$/;\<close>
  The expression is translated piece by piece. Strings are lists of 8-bit characters; a
  character outside ASCII fails the character class whatever its encoding.
\<close>

definition is_letter :: "char \<Rightarrow> bool" where
  "is_letter c = (c \<in> set ''ABCDEFGHIJKLMNOPQRSTUVWXYZabcdefghijklmnopqrstuvwxyz'')"

text \<open>The class \<open>[A-Za-z0-9-]\<close>.\<close>

definition ident_char :: "char \<Rightarrow> bool" where
  "ident_char c = (is_letter c \<or> is_digit c \<or> c = CHR ''-'')"

text \<open>\<open>.\<close> matches every character but a line terminator.\<close>

definition dot :: "char \<Rightarrow> bool" where
  "dot c = (c \<noteq> CHR 0x0A \<and> c \<noteq> CHR 0x0D)"

text \<open>\<open>.*--\<close> matches at the start of the subject.\<close>

fun dotstar_dashdash :: "string \<Rightarrow> bool" where
  "dotstar_dashdash [] = False"
| "dotstar_dashdash (c # cs) = (starts_with ''--'' (c # cs) \<or> (dot c \<and> dotstar_dashdash cs))"

text \<open>The negative lookahead \<open>(?![\-0-9])\<close> at the start of the subject.\<close>

fun lookahead_not_dash_digit :: "string \<Rightarrow> bool" where
  "lookahead_not_dash_digit [] = True"
| "lookahead_not_dash_digit (c # cs) = (\<not> (c = CHR ''-'' \<or> is_digit c))"

text \<open>
  \<open>[A-Za-z0-9-]{1,255}(?<!-)$\<close> from the start of the subject: the end anchor leaves
  the repetition no choice but the whole subject, so the subject has 1 to 255 characters,
  all of the class, and the character before the end is not a hyphen.
\<close>

definition class_1_255_not_dash_end :: "string \<Rightarrow> bool" where
  "class_1_255_not_dash_end s =
     (1 \<le> length s \<and> length s \<le> 255 \<and> list_all ident_char s \<and> last s \<noteq> CHR ''-'')"

definition IDENTIFIER_REGEX_test :: "string \<Rightarrow> bool" where
  "IDENTIFIER_REGEX_test s =
     (lookahead_not_dash_digit s \<and> \<not> dotstar_dashdash s \<and> class_1_255_not_dash_end s)"

text \<open>
  The constraints on an identifier in the words of the property's documentation: 1 to 255
  ASCII letters, digits or hyphens, the first a letter, no hyphen at the end and no two
  hyphens in a row.
\<close>

definition identifier_constraints :: "string \<Rightarrow> bool" where
  "identifier_constraints s =
     (1 \<le> length s \<and> length s \<le> 255
      \<and> list_all (\<lambda>c. is_letter c \<or> is_digit c \<or> c = CHR ''-'') s
      \<and> (case s of [] \<Rightarrow> True | c # cs \<Rightarrow> c \<noteq> CHR ''-'' \<and> \<not> is_digit c)
      \<and> (case rev s of [] \<Rightarrow> True | c # cs \<Rightarrow> c \<noteq> CHR ''-'')
      \<and> \<not> regex_test_word ''--'' s)"

datatype MigrationType = FULL_LOAD | FULL_LOAD_AND_CDC | CDC

text \<open>
  The properties of a replication task, without the optional settings for change data
  capture and the task settings, which the constructor passes on unread. The replication
  instance and the two endpoints are given by the ARN the constructor reads from them.
\<close>

record ReplicationTaskProps =
  migrationType :: MigrationType
  replicationInstanceArn :: string
  replicationTaskIdentifier :: "string option"
  sourceEndpointArn :: string
  tableMappings :: string
  targetEndpointArn :: string

text \<open>The properties of the \<open>CfnReplicationTask\<close> resource the constructor creates.\<close>

record CfnReplicationTaskProps =
  cfn_migrationType :: MigrationType
  cfn_replicationInstanceArn :: string
  cfn_replicationTaskIdentifier :: "string option"
  cfn_sourceEndpointArn :: string
  cfn_tableMappings :: string
  cfn_targetEndpointArn :: string

text \<open>
  The constructor of \<open>ReplicationTask\<close>, after \<open>super(scope, id)\<close>. It takes the
  resources created so far and returns them with the new one, or the error it throws.
  \<^verbatim>\<open>
    if (props.replicationTaskIdentifier
        && !IDENTIFIER_REGEX.test(props.replicationTaskIdentifier)) {
      throw new Error('Identifier must begin with a letter and ...');
    }
    const task = new CfnReplicationTask(this, 'Resource', { ... });
  \<close>
\<close>

definition identifier_error :: error where
  "identifier_error = Error (''Identifier must begin with a letter and must contain only ASCII ''
     @ ''letters, digits, and hyphens. They can'' @ [CHR 0x27] @ ''t end with a hyphen or contain ''
     @ ''two consecutive hyphens. Maximum length is 255.'')"

definition new_ReplicationTask ::
  "ReplicationTaskProps \<Rightarrow> CfnReplicationTaskProps list
     \<Rightarrow> error + CfnReplicationTaskProps list" where
  "new_ReplicationTask props resources =
     (if truthy_string (replicationTaskIdentifier props)
         \<and> \<not> IDENTIFIER_REGEX_test (the (replicationTaskIdentifier props))
      then Inl identifier_error
      else Inr (resources @
             [\<lparr>cfn_migrationType = migrationType props,
               cfn_replicationInstanceArn = replicationInstanceArn props,
               cfn_replicationTaskIdentifier = replicationTaskIdentifier props,
               cfn_sourceEndpointArn = sourceEndpointArn props,
               cfn_tableMappings = tableMappings props,
               cfn_targetEndpointArn = targetEndpointArn props\<rparr>]))"

section \<open>Client VPN endpoints\<close>

record IVpc =
  vpcCidrBlock :: string
  vpcId :: string

record ICertificate =
  certificateArn :: string

record ILogGroup =
  logGroupName :: string

record ILogStream =
  logStreamName :: string

record ClientVpnUserBasedAuthentication =
  directoryId :: "string option"
  samlProviderArn :: "string option"
  selfServiceSamlProviderArn :: "string option"

record ClientVpnEndpointProps =
  cidr :: string
  clientCertificate :: "ICertificate option"
  userBasedAuthentication :: "ClientVpnUserBasedAuthentication option"
  logging :: "bool option"
  logGroup :: "ILogGroup option"
  logStream :: "ILogStream option"
  dnsServers :: "string list option"
  selfServicePortal :: "bool option"
  serverCertificate :: ICertificate
  splitTunnel :: "bool option"
  endpoint_vpc :: IVpc

datatype ClientAuthenticationRequest =
    CertificateAuthentication string
  | DirectoryServiceAuthentication string
  | FederatedAuthentication string "string option"

text \<open>
  \<open>renderAuthenticationOptions(clientCertificate, userBasedAuthentication)\<close>, with its
  two errors. \<open>userBasedAuthentication?.directoryId\<close> is absent when the authentication
  is, and an empty string is falsy.
\<close>

definition uba_directoryId :: "ClientVpnUserBasedAuthentication option \<Rightarrow> string option" where
  "uba_directoryId u = (case u of None \<Rightarrow> None | Some a \<Rightarrow> directoryId a)"

definition uba_samlProviderArn :: "ClientVpnUserBasedAuthentication option \<Rightarrow> string option" where
  "uba_samlProviderArn u = (case u of None \<Rightarrow> None | Some a \<Rightarrow> samlProviderArn a)"

definition renderAuthenticationOptions ::
  "ICertificate option \<Rightarrow> ClientVpnUserBasedAuthentication option
     \<Rightarrow> error + ClientAuthenticationRequest list" where
  "renderAuthenticationOptions cert u =
     (let opts1 = (case cert of None \<Rightarrow> []
                   | Some c \<Rightarrow> [CertificateAuthentication (certificateArn c)])
      in if truthy_string (uba_directoryId u) \<and> truthy_string (uba_samlProviderArn u)
         then Inl (Error ''Cannot use both Active Directory and Federated authentication'')
         else
           let opts2 = (if truthy_string (uba_directoryId u)
                        then opts1 @ [DirectoryServiceAuthentication (the (uba_directoryId u))]
                        else opts1);
               opts3 = (if truthy_string (uba_samlProviderArn u)
                        then opts2 @ [FederatedAuthentication (the (uba_samlProviderArn u))
                                        (selfServiceSamlProviderArn (the u))]
                        else opts2)
           in if length opts3 = 0
              then Inl (Error ''A client VPN endpoint must use at least one authentication option'')
              else Inr opts3)"

fun booleanToEnabledDisabled :: "bool option \<Rightarrow> string option" where
  "booleanToEnabledDisabled None = None"
| "booleanToEnabledDisabled (Some True) = Some ''enabled''"
| "booleanToEnabledDisabled (Some False) = Some ''disabled''"

text \<open>The properties of the \<open>CfnClientVpnEndpoint\<close> resource.\<close>

record CfnClientVpnEndpointProps =
  cfn_authenticationOptions :: "ClientAuthenticationRequest list"
  cfn_clientCidrBlock :: string
  cfn_logging_enabled :: bool
  cfn_dnsServers :: "string list option"
  cfn_selfServicePortal :: "string option"
  cfn_serverCertificateArn :: string
  cfn_splitTunnel :: "bool option"
  cfn_vpcId :: string

text \<open>
  The first statement of the constructor of \<open>ClientVpnEndpoint\<close>:
  \<^verbatim>\<open>
    if (!Token.isUnresolved(props.vpc.vpcCidrBlock)) {
      const clientCidr = new CidrBlock(props.cidr);
      const vpcCidr = new CidrBlock(props.vpc.vpcCidrBlock);
      if (vpcCidr.containsCidr(clientCidr)) {
        throw new Error('The client CIDR cannot overlap with the local CIDR of the VPC');
      }
    }
  \<close>
  \<open>Token.isUnresolved\<close> and the class \<open>CidrBlock\<close> (its constructor, which may throw
  on a malformed block, and \<open>containsCidr\<close>) are not among the sources: they are the
  parameters \<open>isUnresolved\<close>, \<open>CidrBlock\<close> and \<open>containsCidr\<close>.
\<close>

definition cidr_overlap_check ::
  "(string \<Rightarrow> bool) \<Rightarrow> (string \<Rightarrow> error + 'c) \<Rightarrow> ('c \<Rightarrow> 'c \<Rightarrow> bool)
     \<Rightarrow> ClientVpnEndpointProps \<Rightarrow> error + unit" where
  "cidr_overlap_check isUnresolved CidrBlock containsCidr props =
     (if \<not> isUnresolved (vpcCidrBlock (endpoint_vpc props))
      then (case CidrBlock (cidr props) of
              Inl e \<Rightarrow> Inl e
            | Inr clientCidr \<Rightarrow>
                (case CidrBlock (vpcCidrBlock (endpoint_vpc props)) of
                   Inl e \<Rightarrow> Inl e
                 | Inr vpcCidr \<Rightarrow>
                     if containsCidr vpcCidr clientCidr
                     then Inl (Error ''The client CIDR cannot overlap with the local CIDR of the VPC'')
                     else Inr ()))
      else Inr ())"

text \<open>
  The rest of the constructor: the two checks on the DNS servers and on the logging
  properties (\<open>props.logging == false\<close> is false for an absent \<open>logging\<close>), and the
  resource with its authentication options. The constructors of the other constructs are
  not among the sources and are taken to succeed.
\<close>

definition endpoint_after_cidr_check ::
  "ClientVpnEndpointProps \<Rightarrow> error + CfnClientVpnEndpointProps" where
  "endpoint_after_cidr_check props =
     (if (case dnsServers props of None \<Rightarrow> False | Some ds \<Rightarrow> length ds > 2)
      then Inl (Error ''A client VPN endpoint can have up to two DNS servers'')
      else if logging props = Some False
              \<and> (truthy_object (logGroup props) \<or> truthy_object (logStream props))
      then Inl (Error ''Cannot specify `logGroup` or `logStream` when logging is disabled'')
      else
        (case renderAuthenticationOptions (clientCertificate props)
                (userBasedAuthentication props) of
           Inl e \<Rightarrow> Inl e
         | Inr auth \<Rightarrow>
             Inr \<lparr>cfn_authenticationOptions = auth,
                  cfn_clientCidrBlock = cidr props,
                  cfn_logging_enabled = (case logging props of None \<Rightarrow> True | Some b \<Rightarrow> b),
                  cfn_dnsServers = dnsServers props,
                  cfn_selfServicePortal = booleanToEnabledDisabled (selfServicePortal props),
                  cfn_serverCertificateArn = certificateArn (serverCertificate props),
                  cfn_splitTunnel = splitTunnel props,
                  cfn_vpcId = vpcId (endpoint_vpc props)\<rparr>))"

definition new_ClientVpnEndpoint ::
  "(string \<Rightarrow> bool) \<Rightarrow> (string \<Rightarrow> error + 'c) \<Rightarrow> ('c \<Rightarrow> 'c \<Rightarrow> bool)
     \<Rightarrow> ClientVpnEndpointProps \<Rightarrow> error + CfnClientVpnEndpointProps" where
  "new_ClientVpnEndpoint isUnresolved CidrBlock containsCidr props =
     (case cidr_overlap_check isUnresolved CidrBlock containsCidr props of
        Inl e \<Rightarrow> Inl e
      | Inr u \<Rightarrow> endpoint_after_cidr_check props)"

section \<open>The construct tree, exports and imports\<close>

text \<open>
  Modelled from the spec: the classes \<open>cdk.Construct\<close> and \<open>cdk.CfnOutput\<close> are not
  among the sources. The spec gives the tree the operation \<open>addChild(parent, id)\<close>, names
  a node by the chain of ids from the root, and makes a duplicate sibling id a fatal
  construction-time error. A node is its path; the tree is the list of its nodes and the
  list of the outputs declared in it, each with its value.
\<close>

type_synonym path = "string list"

record tree =
  nodes :: "path list"
  outputs :: "(path \<times> string) list"

definition addChild :: "path \<Rightarrow> string \<Rightarrow> tree \<Rightarrow> error + path \<times> tree" where
  "addChild parent ident t =
     (if parent @ [ident] \<in> set (nodes t)
      then Inl (DuplicateSiblingId parent ident)
      else Inr (parent @ [ident], t\<lparr>nodes := nodes t @ [parent @ [ident]]\<rparr>))"

text \<open>
  \<open>new cdk.CfnOutput(scope, id, { value })\<close>: a child of \<open>scope\<close> that declares an
  output of the stack.
\<close>

definition new_CfnOutput :: "path \<Rightarrow> string \<Rightarrow> string \<Rightarrow> tree \<Rightarrow> error + path \<times> tree" where
  "new_CfnOutput scope ident val t =
     (case addChild scope ident t of
        Inl e \<Rightarrow> Inl e
      | Inr (p, t') \<Rightarrow> Inr (p, t'\<lparr>outputs := outputs t' @ [(p, val)]\<rparr>))"

text \<open>Sequencing of steps that may throw.\<close>

definition and_then :: "error + 'a \<Rightarrow> ('a \<Rightarrow> error + 'b) \<Rightarrow> error + 'b" where
  "and_then r f = (case r of Inl e \<Rightarrow> Inl e | Inr x \<Rightarrow> f x)"

text \<open>
  \<open>new cdk.CfnOutput(this, id, { value }).makeImportValue().toString()\<close>: the output is
  declared and the string that imports it elsewhere is returned. How that string is made
  from the output is the parameter \<open>importValue\<close>.
\<close>

definition makeOutput ::
  "(path \<Rightarrow> string) \<Rightarrow> path \<Rightarrow> string \<Rightarrow> string \<Rightarrow> tree \<Rightarrow> error + string \<times> tree" where
  "makeOutput importValue this name val t =
     and_then (new_CfnOutput this name val t) (\<lambda>(p, t'). Inr (importValue p, t'))"

subsection \<open>Database instances\<close>

record Endpoint =
  hostname :: string
  endpoint_port :: string

text \<open>The attributes of a \<open>DatabaseInstance\<close> that \<open>export()\<close> reads, and its node.\<close>

record DatabaseInstanceAttributes =
  instance_node :: path
  instanceIdentifier :: string
  instanceEndpoint :: Endpoint
  securityGroupId :: string

record DatabaseInstanceImportProps =
  import_instanceIdentifier :: string
  import_endpointAddress :: string
  import_port :: string
  import_securityGroupId :: string

text \<open>
  \<^verbatim>\<open>
  public export(): DatabaseInstanceImportProps {
    return {
      instanceIdentifier: new cdk.CfnOutput(this, 'InstanceId',
        { value: this.instanceIdentifier }).makeImportValue().toString(),
      endpointAddress: new cdk.CfnOutput(this, 'EndpointAddress',
        { value: this.instanceEndpoint.hostname }).makeImportValue().toString(),
      port: new cdk.CfnOutput(this, 'Port',
        { value: this.instanceEndpoint.port }).makeImportValue().toString(),
      securityGroupId: new cdk.CfnOutput(this, 'SecurityGroupId',
        { value: this.securityGroupId, }).makeImportValue().toString()
    };
  }
  \<close>
\<close>

definition DatabaseInstance_export ::
  "(path \<Rightarrow> string) \<Rightarrow> DatabaseInstanceAttributes \<Rightarrow> tree
     \<Rightarrow> error + DatabaseInstanceImportProps \<times> tree" where
  "DatabaseInstance_export importValue this t =
     and_then (makeOutput importValue (instance_node this) ''InstanceId''
                 (instanceIdentifier this) t) (\<lambda>(a, t1).
     and_then (makeOutput importValue (instance_node this) ''EndpointAddress''
                 (hostname (instanceEndpoint this)) t1) (\<lambda>(b, t2).
     and_then (makeOutput importValue (instance_node this) ''Port''
                 (endpoint_port (instanceEndpoint this)) t2) (\<lambda>(c, t3).
     and_then (makeOutput importValue (instance_node this) ''SecurityGroupId''
                 (securityGroupId this) t3) (\<lambda>(d, t4).
     Inr (\<lparr>import_instanceIdentifier = a, import_endpointAddress = b,
           import_port = c, import_securityGroupId = d\<rparr>, t4)))))"

text \<open>
  \<open>ImportedDatabaseInstance\<close>: the constructor registers the node under its scope
  (\<open>super(scope, id)\<close>), keeps the props, copies the attributes and imports the security
  group as the child \<open>SecurityGroup\<close>; \<open>export()\<close> returns the props it was given.
\<close>

record ImportedDatabaseInstance =
  idi_props :: DatabaseInstanceImportProps
  idi_instanceIdentifier :: string
  idi_instanceEndpoint :: Endpoint
  idi_securityGroupId :: string

definition new_ImportedDatabaseInstance ::
  "path \<Rightarrow> string \<Rightarrow> DatabaseInstanceImportProps \<Rightarrow> tree
     \<Rightarrow> error + ImportedDatabaseInstance \<times> tree" where
  "new_ImportedDatabaseInstance scope ident props t =
     and_then (addChild scope ident t) (\<lambda>(this, t1).
     and_then (addChild this ''SecurityGroup'' t1) (\<lambda>(sg, t2).
     Inr (\<lparr>idi_props = props,
           idi_instanceIdentifier = import_instanceIdentifier props,
           idi_instanceEndpoint = \<lparr>hostname = import_endpointAddress props,
                                   endpoint_port = import_port props\<rparr>,
           idi_securityGroupId = import_securityGroupId props\<rparr>, t2)))"

definition ImportedDatabaseInstance_export ::
  "ImportedDatabaseInstance \<Rightarrow> tree \<Rightarrow> DatabaseInstanceImportProps \<times> tree" where
  "ImportedDatabaseInstance_export this t = (idi_props this, t)"

subsection \<open>Parameter groups\<close>

record ParameterGroupImportProps =
  import_parameterGroupName :: string

record ImportedParameterGroup =
  ipg_props :: ParameterGroupImportProps
  ipg_parameterGroupName :: string

definition new_ImportedParameterGroup ::
  "path \<Rightarrow> string \<Rightarrow> ParameterGroupImportProps \<Rightarrow> tree
     \<Rightarrow> error + ImportedParameterGroup \<times> tree" where
  "new_ImportedParameterGroup scope ident props t =
     and_then (addChild scope ident t) (\<lambda>(this, t1).
     Inr (\<lparr>ipg_props = props,
           ipg_parameterGroupName = import_parameterGroupName props\<rparr>, t1))"

definition ImportedParameterGroup_export ::
  "ImportedParameterGroup \<Rightarrow> tree \<Rightarrow> ParameterGroupImportProps \<times> tree" where
  "ImportedParameterGroup_export this t = (ipg_props this, t)"

subsection \<open>Database clusters\<close>

record DatabaseClusterImportProps =
  import_cluster_port :: string
  import_cluster_securityGroupId :: string
  import_clusterIdentifier :: string
  import_instanceIdentifiers :: "string list"
  import_clusterEndpointAddress :: string
  import_readerEndpointAddress :: string
  import_instanceEndpointAddresses :: "string list"

text \<open>
  \<open>ImportedDatabaseCluster\<close>. The field \<open>instanceIdentifiers\<close> keeps its initial value
  \<open>[]\<close>: the constructor does not assign it.
\<close>

record ImportedDatabaseCluster =
  idc_props :: DatabaseClusterImportProps
  idc_securityGroupId :: string
  idc_defaultPort :: string
  idc_clusterIdentifier :: string
  idc_instanceIdentifiers :: "string list"
  idc_clusterEndpoint :: Endpoint
  idc_readerEndpoint :: Endpoint
  idc_instanceEndpoints :: "Endpoint list"

definition new_ImportedDatabaseCluster ::
  "path \<Rightarrow> string \<Rightarrow> DatabaseClusterImportProps \<Rightarrow> tree
     \<Rightarrow> error + ImportedDatabaseCluster \<times> tree" where
  "new_ImportedDatabaseCluster scope name props t =
     and_then (addChild scope name t) (\<lambda>(this, t1).
     and_then (addChild this ''SecurityGroup'' t1) (\<lambda>(sg, t2).
     Inr (\<lparr>idc_props = props,
           idc_securityGroupId = import_cluster_securityGroupId props,
           idc_defaultPort = import_cluster_port props,
           idc_clusterIdentifier = import_clusterIdentifier props,
           idc_instanceIdentifiers = [],
           idc_clusterEndpoint = \<lparr>hostname = import_clusterEndpointAddress props,
                                  endpoint_port = import_cluster_port props\<rparr>,
           idc_readerEndpoint = \<lparr>hostname = import_readerEndpointAddress props,
                                 endpoint_port = import_cluster_port props\<rparr>,
           idc_instanceEndpoints =
             map (\<lambda>a. \<lparr>hostname = a, endpoint_port = import_cluster_port props\<rparr>)
               (import_instanceEndpointAddresses props)\<rparr>, t2)))"

definition ImportedDatabaseCluster_export ::
  "ImportedDatabaseCluster \<Rightarrow> tree \<Rightarrow> DatabaseClusterImportProps \<times> tree" where
  "ImportedDatabaseCluster_export this t = (idc_props this, t)"

subsection \<open>EKS clusters\<close>

text \<open>
  \<open>ClusterBase.export()\<close> declares three outputs through \<open>makeOutput\<close> and passes the
  placement, the security group and the connections on as they are (they are left out of
  the record).
\<close>

record ClusterAttributes =
  cluster_node :: path
  clusterName :: string
  clusterArn :: string
  clusterEndpoint :: string

record ClusterImportProps =
  import_clusterName :: string
  import_clusterArn :: string
  import_clusterEndpoint :: string

definition ClusterBase_export ::
  "(path \<Rightarrow> string) \<Rightarrow> ClusterAttributes \<Rightarrow> tree \<Rightarrow> error + ClusterImportProps \<times> tree" where
  "ClusterBase_export importValue this t =
     and_then (makeOutput importValue (cluster_node this) ''ClusterName''
                 (clusterName this) t) (\<lambda>(a, t1).
     and_then (makeOutput importValue (cluster_node this) ''ClusterArn''
                 (clusterArn this) t1) (\<lambda>(b, t2).
     and_then (makeOutput importValue (cluster_node this) ''ClusterEndpoint''
                 (clusterEndpoint this) t2) (\<lambda>(c, t3).
     Inr (\<lparr>import_clusterName = a, import_clusterArn = b, import_clusterEndpoint = c\<rparr>,
          t3))))"

subsection \<open>The reference tracker\<close>

text \<open>
  Modelled from the spec: the reference tracker is not among the sources. The spec gives
  it the operation \<open>recordReference(consumerNode, producerNode, attribute)\<close>: a reference
  inside one deployable unit is a direct link and needs nothing more; a reference across
  units materialises, once per producer unit and attribute, an export in the producer
  unit and an import in the consumer unit. \<open>unit_of\<close> gives the unit a node belongs to.
\<close>

record tracker =
  unit_exports :: "(string \<times> path \<times> string) list"
  unit_imports :: "(string \<times> string \<times> path \<times> string) list"

definition empty_tracker :: tracker where
  "empty_tracker = \<lparr>unit_exports = [], unit_imports = []\<rparr>"

definition recordReference ::
  "(path \<Rightarrow> string) \<Rightarrow> path \<Rightarrow> path \<Rightarrow> string \<Rightarrow> tracker \<Rightarrow> tracker" where
  "recordReference unit_of consumerNode producerNode attribute tr =
     (if unit_of consumerNode = unit_of producerNode then tr
      else \<lparr>unit_exports = List.insert (unit_of producerNode, producerNode, attribute)
                             (unit_exports tr),
            unit_imports = List.insert (unit_of consumerNode, unit_of producerNode, producerNode,
                        attribute) (unit_imports tr)\<rparr>)"

text \<open>The references of a list of consumer nodes to one attribute of one producer.\<close>

fun recordReferences ::
  "(path \<Rightarrow> string) \<Rightarrow> path list \<Rightarrow> path \<Rightarrow> string \<Rightarrow> tracker \<Rightarrow> tracker" where
  "recordReferences unit_of [] producerNode attribute tr = tr"
| "recordReferences unit_of (c # cs) producerNode attribute tr =
     recordReferences unit_of cs producerNode attribute
       (recordReference unit_of c producerNode attribute tr)"

text \<open>
  A reference, as the spec has it: the consuming node, the producing node and the name
  of the producing attribute. A reference crosses units when the two nodes belong to
  different units; it then asks for the export of the attribute from the producer's unit
  and for the import of that export into the consumer's unit.
\<close>

type_synonym reference = "path \<times> path \<times> string"

fun crosses :: "(path \<Rightarrow> string) \<Rightarrow> reference \<Rightarrow> bool" where
  "crosses unit_of (c, p, a) = (unit_of c \<noteq> unit_of p)"

fun export_of :: "(path \<Rightarrow> string) \<Rightarrow> reference \<Rightarrow> string \<times> path \<times> string" where
  "export_of unit_of (c, p, a) = (unit_of p, p, a)"

fun import_of :: "(path \<Rightarrow> string) \<Rightarrow> reference \<Rightarrow> string \<times> string \<times> path \<times> string" where
  "import_of unit_of (c, p, a) = (unit_of c, unit_of p, p, a)"

text \<open>The references of a synthesis, recorded one after the other.\<close>

fun recordAll :: "(path \<Rightarrow> string) \<Rightarrow> reference list \<Rightarrow> tracker \<Rightarrow> tracker" where
  "recordAll unit_of [] tr = tr"
| "recordAll unit_of ((c, p, a) # rs) tr =
     recordAll unit_of rs (recordReference unit_of c p a tr)"

section \<open>Tokens and the lazy resolution engine\<close>

text \<open>
  Modelled from the spec: the resolution engine is not among the sources. The spec gives
  the contract \<open>resolve(value, context) -> plainValue\<close> over any nesting of primitives,
  ordered sequences, mappings and Tokens: a primitive is returned unchanged; the elements
  of a sequence and the values of a mapping are resolved, the keys of a mapping never;
  for a Token its resolver is invoked with the context and the result is resolved in
  turn, with a bounded recursion depth. A Token may also stand inside a string, encoded
  as a sentinel substring that maps back to the Token; on resolution the resolved
  fragment is spliced back into the string, and when a resolved fragment is not a scalar
  the result is the provider's join expression. Resolving an unknown handle, exceeding
  the depth and a resolver that throws are the three errors.
\<close>

datatype primitive = Null | Boolean bool | Number int | String string

type_synonym handle = nat

datatype val =
    Primitive primitive
  | Sequence "val list"
  | Mapping "(string \<times> val) list"
  | Tok handle

text \<open>The context of a resolution: the current deployable unit and the current node.\<close>

record resolution_context =
  current_unit :: string
  current_node :: "string list"

datatype resolution_error =
    UnresolvableToken handle
  | CircularOrRunawayToken
  | ResolverError "string list" string

text \<open>
  A resolver returns a value, which may hold further Tokens, or throws with a message.
  The table of the known Tokens maps a handle to its resolver.
\<close>

type_synonym resolver = "resolution_context \<Rightarrow> string + val"
type_synonym tokens = "handle \<Rightarrow> resolver option"

subsection \<open>Tokens inside strings\<close>

text \<open>
  A string is read as a list of fragments: literal text and embedded Tokens. The spec
  asks for a reversible encoding and does not fix it, so the engine takes the decoder as
  a parameter: it gives the fragments of a string, in order.
\<close>

datatype fragment = Literal string | Embedded handle

type_synonym decoder = "string \<Rightarrow> fragment list"

fun is_literal :: "fragment \<Rightarrow> bool" where
  "is_literal (Literal t) = True"
| "is_literal (Embedded h) = False"

text \<open>
  One such encoding, for running the engine on strings: the Token with the handle \<open>n\<close>
  is written \<open>${Token[n]}\<close>, with \<open>n\<close> in decimal digits. \<open>parse_marker\<close> reads a marker
  at the start of the subject and gives the handle and the rest of the subject.
\<close>

definition encode_marker :: "handle \<Rightarrow> string" where
  "encode_marker h = ''${Token['' @ digits_of h @ '']}''"

definition parse_marker :: "string \<Rightarrow> (handle \<times> string) option" where
  "parse_marker s =
     (if starts_with ''${Token['' s
      then (let body = drop 8 s;
                ds = takeWhile is_digit body;
                rest = dropWhile is_digit body
            in if ds \<noteq> [] \<and> starts_with '']}'' rest
               then Some (decimal_value ds, drop 2 rest)
               else None)
      else None)"

fun add_char :: "char \<Rightarrow> fragment list \<Rightarrow> fragment list" where
  "add_char c (Literal t # fs) = Literal (c # t) # fs"
| "add_char c fs = Literal [c] # fs"

function decode_marker :: decoder where
  "decode_marker [] = []"
| "decode_marker (c # cs) =
     (case parse_marker (c # cs) of
        Some (h, rest) \<Rightarrow> Embedded h # decode_marker rest
      | None \<Rightarrow> add_char c (decode_marker cs))"
  by pat_completeness auto
termination
proof (relation "measure length")
  show "wf (measure length)" by simp
next
  fix c cs x h rest
  assume "parse_marker (c # cs) = Some x" and "(h, rest) = x"
  then have "rest = drop 2 (dropWhile is_digit (drop 8 (c # cs)))"
    by (auto simp: parse_marker_def Let_def split: if_splits)
  moreover have "length (dropWhile is_digit (drop 8 (c # cs))) \<le> length (drop 8 (c # cs))"
    by (rule length_dropWhile_le)
  ultimately have "length rest < length (c # cs)"
    by simp
  then show "(rest, c # cs) \<in> measure length" by simp
next
  fix c cs
  show "(cs, c # cs) \<in> measure length" by simp
qed

subsection \<open>Splicing\<close>

text \<open>
  The text of a resolved scalar. The spec does not say how a scalar that is not a string
  is written into a string; the model writes it as JavaScript's string conversion does.
\<close>

fun scalar_text :: "val \<Rightarrow> string option" where
  "scalar_text (Primitive (String x)) = Some x"
| "scalar_text (Primitive (Number n)) = Some (decimal n)"
| "scalar_text (Primitive (Boolean b)) = Some (if b then ''true'' else ''false'')"
| "scalar_text (Primitive Null) = Some ''null''"
| "scalar_text (Sequence vs) = None"
| "scalar_text (Mapping kvs) = None"
| "scalar_text (Tok h) = None"

fun is_scalar :: "val \<Rightarrow> bool" where
  "is_scalar (Primitive p) = True"
| "is_scalar (Sequence vs) = False"
| "is_scalar (Mapping kvs) = False"
| "is_scalar (Tok h) = False"

text \<open>
  The resolved parts of a string, put together: one string when every part is a scalar,
  else the join expression of the provider, which in the templates among the sources is
  \<open>{"Fn::Join": ["", [part, ...]]}\<close>.
\<close>

definition splice :: "val list \<Rightarrow> val" where
  "splice parts =
     (if list_all is_scalar parts
      then Primitive (String (concat (map (\<lambda>v. case scalar_text v of Some t \<Rightarrow> t | None \<Rightarrow> []) parts)))
      else Mapping [(''Fn::Join'', Sequence [Primitive (String ''''), Sequence parts])])"

subsection \<open>Resolution\<close>

text \<open>
  \<open>depth\<close> is the number of nested Token expansions still allowed. An expansion at
  depth \<open>0\<close> exceeds the bound. A string with no embedded Token is returned as it is;
  the embedded Tokens of a string are resolved as Tokens are, from left to right.
\<close>

function resolve ::
    "decoder \<Rightarrow> tokens \<Rightarrow> resolution_context \<Rightarrow> nat \<Rightarrow> val \<Rightarrow> resolution_error + val"
  and resolve_elements ::
    "decoder \<Rightarrow> tokens \<Rightarrow> resolution_context \<Rightarrow> nat \<Rightarrow> val list
       \<Rightarrow> resolution_error + val list"
  and resolve_entries ::
    "decoder \<Rightarrow> tokens \<Rightarrow> resolution_context \<Rightarrow> nat \<Rightarrow> (string \<times> val) list
       \<Rightarrow> resolution_error + (string \<times> val) list"
  and resolve_fragments ::
    "decoder \<Rightarrow> tokens \<Rightarrow> resolution_context \<Rightarrow> nat \<Rightarrow> fragment list
       \<Rightarrow> resolution_error + val list"
where
  "resolve dec tk ctx depth (Primitive Null) = Inr (Primitive Null)"
| "resolve dec tk ctx depth (Primitive (Boolean b)) = Inr (Primitive (Boolean b))"
| "resolve dec tk ctx depth (Primitive (Number n)) = Inr (Primitive (Number n))"
| "resolve dec tk ctx depth (Primitive (String s)) =
     (if list_all is_literal (dec s) then Inr (Primitive (String s))
      else (case resolve_fragments dec tk ctx depth (dec s) of
              Inl e \<Rightarrow> Inl e
            | Inr parts \<Rightarrow> Inr (splice parts)))"
| "resolve dec tk ctx depth (Sequence vs) =
     (case resolve_elements dec tk ctx depth vs of
        Inl e \<Rightarrow> Inl e
      | Inr vs' \<Rightarrow> Inr (Sequence vs'))"
| "resolve dec tk ctx depth (Mapping kvs) =
     (case resolve_entries dec tk ctx depth kvs of
        Inl e \<Rightarrow> Inl e
      | Inr kvs' \<Rightarrow> Inr (Mapping kvs'))"
| "resolve dec tk ctx depth (Tok h) =
     (case tk h of
        None \<Rightarrow> Inl (UnresolvableToken h)
      | Some r \<Rightarrow>
          (case depth of
             0 \<Rightarrow> Inl CircularOrRunawayToken
           | Suc d \<Rightarrow>
               (case r ctx of
                  Inl msg \<Rightarrow> Inl (ResolverError (current_node ctx) msg)
                | Inr v \<Rightarrow> resolve dec tk ctx d v)))"
| "resolve_elements dec tk ctx depth [] = Inr []"
| "resolve_elements dec tk ctx depth (v # vs) =
     (case resolve dec tk ctx depth v of
        Inl e \<Rightarrow> Inl e
      | Inr v' \<Rightarrow>
          (case resolve_elements dec tk ctx depth vs of
             Inl e \<Rightarrow> Inl e
           | Inr vs' \<Rightarrow> Inr (v' # vs')))"
| "resolve_entries dec tk ctx depth [] = Inr []"
| "resolve_entries dec tk ctx depth ((k, v) # kvs) =
     (case resolve dec tk ctx depth v of
        Inl e \<Rightarrow> Inl e
      | Inr v' \<Rightarrow>
          (case resolve_entries dec tk ctx depth kvs of
             Inl e \<Rightarrow> Inl e
           | Inr kvs' \<Rightarrow> Inr ((k, v') # kvs')))"
| "resolve_fragments dec tk ctx depth [] = Inr []"
| "resolve_fragments dec tk ctx depth (Literal t # fs) =
     (case resolve_fragments dec tk ctx depth fs of
        Inl e \<Rightarrow> Inl e
      | Inr parts \<Rightarrow> Inr (Primitive (String t) # parts))"
| "resolve_fragments dec tk ctx depth (Embedded h # fs) =
     (case resolve dec tk ctx depth (Tok h) of
        Inl e \<Rightarrow> Inl e
      | Inr v \<Rightarrow>
          (case resolve_fragments dec tk ctx depth fs of
             Inl e \<Rightarrow> Inl e
           | Inr parts \<Rightarrow> Inr (v # parts)))"
  by pat_completeness auto
termination
  by (relation "inv_image (less_than <*lex*> less_than <*lex*> less_than)
       (\<lambda>x. case x of
          Inl (Inl (dec, tk, ctx, d, v)) \<Rightarrow> (d, (case v of Tok h \<Rightarrow> 0 | _ \<Rightarrow> 2), size v)
        | Inl (Inr (dec, tk, ctx, d, vs)) \<Rightarrow> (d, 2, size_list size vs)
        | Inr (Inl (dec, tk, ctx, d, kvs)) \<Rightarrow>
            (d, 2, size_list (size_prod (\<lambda>k. 0) size) kvs)
        | Inr (Inr (dec, tk, ctx, d, fs)) \<Rightarrow> (d, 1, length fs))")
    (auto split: val.splits)

text \<open>
  A value is Token-free when no Token occurs in it at any depth, as a value or inside a
  string.
\<close>

fun token_free :: "decoder \<Rightarrow> val \<Rightarrow> bool"
  and token_free_elements :: "decoder \<Rightarrow> val list \<Rightarrow> bool"
  and token_free_entries :: "decoder \<Rightarrow> (string \<times> val) list \<Rightarrow> bool"
where
  "token_free dec (Primitive Null) = True"
| "token_free dec (Primitive (Boolean b)) = True"
| "token_free dec (Primitive (Number n)) = True"
| "token_free dec (Primitive (String s)) = list_all is_literal (dec s)"
| "token_free dec (Sequence vs) = token_free_elements dec vs"
| "token_free dec (Mapping kvs) = token_free_entries dec kvs"
| "token_free dec (Tok h) = False"
| "token_free_elements dec [] = True"
| "token_free_elements dec (v # vs) = (token_free dec v \<and> token_free_elements dec vs)"
| "token_free_entries dec [] = True"
| "token_free_entries dec ((k, v) # kvs) = (token_free dec v \<and> token_free_entries dec kvs)"

text \<open>
  A value mentions a set of handles when a Token with a handle of the set occurs in it,
  as a value or inside a string.
\<close>

fun embeds :: "handle set \<Rightarrow> fragment \<Rightarrow> bool" where
  "embeds S (Literal t) = False"
| "embeds S (Embedded h) = (h \<in> S)"

fun mentions :: "decoder \<Rightarrow> handle set \<Rightarrow> val \<Rightarrow> bool"
  and mentions_elements :: "decoder \<Rightarrow> handle set \<Rightarrow> val list \<Rightarrow> bool"
  and mentions_entries :: "decoder \<Rightarrow> handle set \<Rightarrow> (string \<times> val) list \<Rightarrow> bool"
where
  "mentions dec S (Primitive Null) = False"
| "mentions dec S (Primitive (Boolean b)) = False"
| "mentions dec S (Primitive (Number n)) = False"
| "mentions dec S (Primitive (String s)) = list_ex (embeds S) (dec s)"
| "mentions dec S (Sequence vs) = mentions_elements dec S vs"
| "mentions dec S (Mapping kvs) = mentions_entries dec S kvs"
| "mentions dec S (Tok h) = (h \<in> S)"
| "mentions_elements dec S [] = False"
| "mentions_elements dec S (v # vs) = (mentions dec S v \<or> mentions_elements dec S vs)"
| "mentions_entries dec S [] = False"
| "mentions_entries dec S ((k, v) # kvs) = (mentions dec S v \<or> mentions_entries dec S kvs)"

text \<open>
  A value leads to a set of handles when the first Token that resolution meets in it,
  going from left to right, has a handle of the set: what stands before that Token is
  Token-free.
\<close>

fun first_embedded :: "handle set \<Rightarrow> fragment list \<Rightarrow> bool" where
  "first_embedded S [] = False"
| "first_embedded S (Literal t # fs) = first_embedded S fs"
| "first_embedded S (Embedded h # fs) = (h \<in> S)"

fun leads_to :: "decoder \<Rightarrow> handle set \<Rightarrow> val \<Rightarrow> bool"
  and leads_to_elements :: "decoder \<Rightarrow> handle set \<Rightarrow> val list \<Rightarrow> bool"
  and leads_to_entries :: "decoder \<Rightarrow> handle set \<Rightarrow> (string \<times> val) list \<Rightarrow> bool"
where
  "leads_to dec S (Primitive Null) = False"
| "leads_to dec S (Primitive (Boolean b)) = False"
| "leads_to dec S (Primitive (Number n)) = False"
| "leads_to dec S (Primitive (String s)) = first_embedded S (dec s)"
| "leads_to dec S (Sequence vs) = leads_to_elements dec S vs"
| "leads_to dec S (Mapping kvs) = leads_to_entries dec S kvs"
| "leads_to dec S (Tok h) = (h \<in> S)"
| "leads_to_elements dec S [] = False"
| "leads_to_elements dec S (v # vs) =
     (leads_to dec S v \<or> (token_free dec v \<and> leads_to_elements dec S vs))"
| "leads_to_entries dec S [] = False"
| "leads_to_entries dec S ((k, v) # kvs) =
     (leads_to dec S v \<or> (token_free dec v \<and> leads_to_entries dec S kvs))"

section \<open>Asset archives\<close>

text \<open>
  \<open>zipDirectory(directory, outputFile)\<close> lists the files of the directory
  (\<open>glob.sync('**', ...)\<close>, whose output is sorted), and starts for every file an
  asynchronous task that reads the file and its mode and, when both are there, appends an
  entry to the archive:
  \<^verbatim>\<open>
    await Promise.all(files.map(async (file) => {
      const fullPath = path.join(directory, file);
      const [data, stat] = await Promise.all([readFileAsync(fullPath), statAsync(fullPath)]);
      archive.append(data, {
        name: file,
        date: new Date('1980-01-01T00:00:00.000Z'), // reset dates to get the same hash ...
        mode: stat.mode
      });
    }));
    archive.finalize();
  \<close>
  The directory is the list of its files in the sorted order of the listing. The tasks
  run together, so the entries are appended in the order in which the reads complete;
  that order is not fixed by the program and is a parameter, the list of the positions of
  the files in the order of completion. The archive is the list of its entries in the
  order of the appends, which is the order in which the zip file lays them out.
\<close>

record source_file =
  file_name :: string
  file_data :: string
  file_mode :: nat

record archive_entry =
  entry_name :: string
  entry_data :: string
  entry_date :: string
  entry_mode :: nat

definition append_entry :: "source_file \<Rightarrow> archive_entry" where
  "append_entry f =
     \<lparr>entry_name = file_name f, entry_data = file_data f,
      entry_date = ''1980-01-01T00:00:00.000Z'', entry_mode = file_mode f\<rparr>"

text \<open>An order of completion of \<open>n\<close> tasks: every position below \<open>n\<close>, once.\<close>

definition completion_order :: "nat \<Rightarrow> nat list \<Rightarrow> bool" where
  "completion_order n order = (sort order = [0..<n])"

definition zipDirectory :: "source_file list \<Rightarrow> nat list \<Rightarrow> archive_entry list" where
  "zipDirectory files order =
     map (\<lambda>i. append_entry (files ! i)) (filter (\<lambda>i. i < length files) order)"

chapter \<open>Properties\<close>

section \<open>Parameter groups: validation and the lazy parameters token\<close>

subsection \<open>Facts about the parameter object\<close>

lemma map_of_replace_key:
  "k \<in> fst ` set ps \<Longrightarrow> map_of (replace_key k v ps) = (map_of ps)(k \<mapsto> v)"
proof (induction ps)
  case Nil
  then show ?case by simp
next
  case (Cons kv ps)
  show ?case
  proof (cases "fst kv = k")
    case True
    then show ?thesis by (cases kv) (simp add: fun_eq_iff)
  next
    case False
    with Cons.prems have "k \<in> fst ` set ps" by auto
    then have "map_of (replace_key k v ps) = (map_of ps)(k \<mapsto> v)"
      by (rule Cons.IH)
    with False show ?thesis by (cases kv) (auto simp: fun_eq_iff)
  qed
qed

lemma map_of_insert_index_key:
  "k \<notin> fst ` set ps \<Longrightarrow> map_of (insert_index_key k v ps) = (map_of ps)(k \<mapsto> v)"
proof (induction ps)
  case Nil
  then show ?case by simp
next
  case (Cons kv ps)
  then have ne: "fst kv \<noteq> k" and rest: "k \<notin> fst ` set ps" by auto
  from Cons.IH [OF rest] ne show ?case
    by (cases kv) (auto simp: fun_eq_iff)
qed

lemma map_of_append_new:
  "k \<notin> fst ` set ps \<Longrightarrow> map_of (ps @ [(k, v)]) = (map_of ps)(k \<mapsto> v)"
proof (induction ps)
  case Nil
  then show ?case by simp
next
  case (Cons kv ps)
  then have ne: "fst kv \<noteq> k" and rest: "k \<notin> fst ` set ps" by auto
  from Cons.IH [OF rest] ne show ?case
    by (cases kv) (auto simp: fun_eq_iff)
qed

lemma map_of_store_key: "map_of (store_key k v ps) = (map_of ps)(k \<mapsto> v)"
proof (cases "k \<in> fst ` set ps")
  case True
  then have eq: "store_key k v ps = replace_key k v ps"
    by (simp add: store_key_def key_in_def keys_def)
  show ?thesis
    unfolding eq using True by (rule map_of_replace_key)
next
  case False
  then have nk: "\<not> key_in k ps"
    by (simp add: key_in_def keys_def)
  show ?thesis
  proof (cases "is_index_key k")
    case True
    with nk have eq: "store_key k v ps = insert_index_key k v ps"
      by (simp add: store_key_def)
    show ?thesis
      unfolding eq using False by (rule map_of_insert_index_key)
  next
    case no: False
    with nk have eq: "store_key k v ps = ps @ [(k, v)]"
      by (simp add: store_key_def)
    show ?thesis
      unfolding eq using False by (rule map_of_append_new)
  qed
qed

text \<open>
  The order of the keys: an index key goes before the keys added earlier that are not
  index keys, as in JavaScript.
\<close>

lemma store_key_index_first:
  "store_key ''1'' ''x'' (store_key ''b'' ''1'' []) = [(''1'', ''x''), (''b'', ''1'')]"
  by (simp add: store_key_def key_in_def keys_def is_index_key_def is_digit_def
      decimal_value_def digit_value_def)

lemma map_of_delete_key: "map_of (delete_key k ps) = (map_of ps)(k := None)"
  unfolding delete_key_def
  by (induction ps) (auto simp: fun_eq_iff)

lemma keys_empty_iff: "keys ps = [] \<longleftrightarrow> map_of ps = Map.empty"
  unfolding keys_def
  by (cases ps) (auto simp: fun_eq_iff)

text \<open>
  C3. \<open>validate()\<close> returns a list of error strings on every state (it has no failing
  branch): exactly the one message when the parameters map has no entry, and the empty
  list as soon as some key is mapped to a value.
\<close>

theorem validate_empty_or_one_message:
  "(map_of (parameters (s this)) = Map.empty \<longrightarrow>
      validate this s = [''At least one parameter required, call setParameter().''])
   \<and> (map_of (parameters (s this)) k = Some v \<longrightarrow> validate this s = [])"
proof -
  have "keys (parameters (s this)) = [] \<longleftrightarrow> map_of (parameters (s this)) = Map.empty"
    by (rule keys_empty_iff)
  then show ?thesis
    unfolding validate_def by auto
qed

theorem validate_empty_or_one_message_witness:
  "validate 0 (snd (new_ClusterParameterGroup 0
      \<lparr>family = ''aurora5.6'', props_description = None, props_parameters = None\<rparr> empty_store))
     = [''At least one parameter required, call setParameter().'']
   \<and> validate 0 (snd (new_ClusterParameterGroup 0
      \<lparr>family = ''aurora5.6'', props_description = None,
        props_parameters = Some [(''open_cursors'', ''2500'')]\<rparr> empty_store)) = []"
proof -
  let ?s0 = "snd (new_ClusterParameterGroup 0
      \<lparr>family = ''aurora5.6'', props_description = None, props_parameters = None\<rparr> empty_store)"
  let ?s1 = "snd (new_ClusterParameterGroup 0
      \<lparr>family = ''aurora5.6'', props_description = None,
        props_parameters = Some [(''open_cursors'', ''2500'')]\<rparr> empty_store)"
  have p0: "parameters (?s0 0) = []"
    by (simp add: new_ClusterParameterGroup_def new_ParameterGroup_def empty_store_def)
  have p1: "parameters (?s1 0) = [(''open_cursors'', ''2500'')]"
    by (simp add: new_ClusterParameterGroup_def new_ParameterGroup_def empty_store_def
        setParameter_def assign_key_def store_key_def key_in_def keys_def
        is_index_key_def is_digit_def)
  have e0: "map_of (parameters (?s0 0)) = Map.empty"
    using p0 by simp
  have e1: "map_of (parameters (?s1 0)) ''open_cursors'' = Some ''2500''"
    using p1 by simp
  show ?thesis
    using validate_empty_or_one_message [of ?s0 0] validate_empty_or_one_message [of ?s1 0 "''open_cursors''" "''2500''"]
      e0 e1 by blast
qed


subsection \<open>The lazy parameters token\<close>

lemma parameters_setParameter_Some:
  "parameters (setParameter this key (Some v) s this) = assign_key key v (parameters (s this))"
  by (simp add: setParameter_def)

lemma parameters_setParameter_None:
  "parameters (setParameter this key None s this) = delete_key key (parameters (s this))"
proof (cases "key_in key (parameters (s this))")
  case True
  then show ?thesis by (simp add: setParameter_def)
next
  case False
  then have "delete_key key (parameters (s this)) = parameters (s this)"
    unfolding key_in_def keys_def delete_key_def by (auto simp: filter_id_conv)
  with False show ?thesis by (simp add: setParameter_def)
qed

lemma setParameter_other:
  "other \<noteq> this \<Longrightarrow> setParameter other key val s this = s this"
  by (cases val) (simp_all add: setParameter_def)

lemma cfn_parameters_new_ClusterParameterGroup:
  "cfn_parameters (fst (new_ClusterParameterGroup this props s)) = Token (\<lambda>st. parameters (st this))"
  by (simp add: new_ClusterParameterGroup_def Let_def)

lemma cfn_parameters_new_InstanceParameterGroup:
  "cfn_parameters (fst (new_InstanceParameterGroup this props s)) = Token (\<lambda>st. parameters (st this))"
  by (simp add: new_InstanceParameterGroup_def Let_def)

text \<open>
  C1, as stated, fails. A cluster parameter group is created with one parameter; its
  token is resolved, \<open>setParameter\<close> adds a second parameter to the group, and the same
  token is resolved again: the two values differ.
\<close>

theorem lazy_parameters_token_counterexample:
  "resolve_token
     (cfn_parameters (fst (new_ClusterParameterGroup 0
        \<lparr>family = ''aurora5.6'', props_description = None,
          props_parameters = Some [(''character_set_database'', ''utf8mb4'')]\<rparr> empty_store)))
     (snd (new_ClusterParameterGroup 0
        \<lparr>family = ''aurora5.6'', props_description = None,
          props_parameters = Some [(''character_set_database'', ''utf8mb4'')]\<rparr> empty_store))
   \<noteq>
   resolve_token
     (cfn_parameters (fst (new_ClusterParameterGroup 0
        \<lparr>family = ''aurora5.6'', props_description = None,
          props_parameters = Some [(''character_set_database'', ''utf8mb4'')]\<rparr> empty_store)))
     (setParameter 0 ''max_connections'' (Some ''100'')
       (snd (new_ClusterParameterGroup 0
          \<lparr>family = ''aurora5.6'', props_description = None,
            props_parameters = Some [(''character_set_database'', ''utf8mb4'')]\<rparr> empty_store)))"
  by (simp add: new_ClusterParameterGroup_def new_ParameterGroup_def empty_store_def
      setParameter_def assign_key_def store_key_def key_in_def keys_def
        is_index_key_def is_digit_def)

text \<open>
  C1, amended. The token of a \<open>ClusterParameterGroup\<close> or \<open>InstanceParameterGroup\<close>
  resolves to the parameters of its group as they are when it is resolved. Two
  resolutions agree when the group's parameters are the same at both times, and calls of
  \<open>setParameter\<close> on another group do not matter; a resolution after
  \<open>setParameter(key, v)\<close> on the owning group has \<open>key\<close> set to \<open>v\<close> (for a key other
  than \<open>__proto__\<close>), and one after \<open>removeParameter(key)\<close> has no \<open>key\<close>.
\<close>

theorem lazy_parameters_token_reads_current_parameters:
  assumes "cfn = fst (new_ClusterParameterGroup this props s)
           \<or> cfn = fst (new_InstanceParameterGroup this props s)"
  shows "(parameters (st this) = parameters (st' this) \<longrightarrow>
            resolve_token (cfn_parameters cfn) st = resolve_token (cfn_parameters cfn) st')
         \<and> (other \<noteq> this \<longrightarrow>
              resolve_token (cfn_parameters cfn) (setParameter other key val st)
                = resolve_token (cfn_parameters cfn) st)
         \<and> (key \<noteq> ''__proto__'' \<longrightarrow>
              map_of (resolve_token (cfn_parameters cfn) (setParameter this key (Some v) st)) key
                = Some v)
         \<and> map_of (resolve_token (cfn_parameters cfn) (removeParameter this key st)) key = None"
proof -
  from assms have tok: "cfn_parameters cfn = Token (\<lambda>st. parameters (st this))"
    using cfn_parameters_new_ClusterParameterGroup cfn_parameters_new_InstanceParameterGroup
    by metis
  have a: "parameters (st this) = parameters (st' this) \<longrightarrow>
            resolve_token (cfn_parameters cfn) st = resolve_token (cfn_parameters cfn) st'"
    by (simp add: tok)
  have b: "other \<noteq> this \<longrightarrow>
             resolve_token (cfn_parameters cfn) (setParameter other key val st)
               = resolve_token (cfn_parameters cfn) st"
    by (simp add: tok setParameter_other)
  have c: "key \<noteq> ''__proto__'' \<longrightarrow>
             map_of (resolve_token (cfn_parameters cfn) (setParameter this key (Some v) st)) key
               = Some v"
    by (simp add: tok parameters_setParameter_Some assign_key_def map_of_store_key)
  have d: "map_of (resolve_token (cfn_parameters cfn) (removeParameter this key st)) key = None"
    by (simp add: tok removeParameter_def parameters_setParameter_None map_of_delete_key)
  from a b c d show ?thesis by blast
qed

theorem lazy_parameters_token_reads_current_parameters_witness:
  "resolve_token
     (cfn_parameters (fst (new_InstanceParameterGroup 0
        \<lparr>family = ''oracle-se1-11.2'', props_description = None,
          props_parameters = Some [(''open_cursors'', ''2500'')]\<rparr> empty_store)))
     (setParameter 1 ''open_cursors'' (Some ''1'') empty_store)
   = resolve_token
     (cfn_parameters (fst (new_InstanceParameterGroup 0
        \<lparr>family = ''oracle-se1-11.2'', props_description = None,
          props_parameters = Some [(''open_cursors'', ''2500'')]\<rparr> empty_store)))
     empty_store
   \<and> map_of (resolve_token
     (cfn_parameters (fst (new_InstanceParameterGroup 0
        \<lparr>family = ''oracle-se1-11.2'', props_description = None,
          props_parameters = Some [(''open_cursors'', ''2500'')]\<rparr> empty_store)))
     (setParameter 0 ''open_cursors'' (Some ''3000'') empty_store)) ''open_cursors''
   = Some ''3000''"
proof -
  have ne: "(1::nat) \<noteq> 0" and key: "''open_cursors'' \<noteq> ''__proto__''"
    by simp_all
  show ?thesis
    using lazy_parameters_token_reads_current_parameters
      [OF disjI2 [OF refl], where this = 0 and st = empty_store and st' = empty_store
        and other = 1 and key = "''open_cursors''" and val = "Some ''1''" and v = "''3000''"]
      ne key
    by blast
qed

section \<open>Database instances: the first check of the constructor\<close>

lemma starts_with_iff: "starts_with w s \<longleftrightarrow> (\<exists>r. s = w @ r)"
  by (induction w s rule: starts_with.induct) auto

lemma regex_test_word_iff: "regex_test_word w s \<longleftrightarrow> (\<exists>l r. s = l @ w @ r)"
proof (induction s)
  case Nil
  then show ?case by (auto simp: starts_with_iff)
next
  case (Cons c cs)
  show ?case
  proof
    assume "regex_test_word w (c # cs)"
    then consider "starts_with w (c # cs)" | "regex_test_word w cs" by auto
    then show "\<exists>l r. c # cs = l @ w @ r"
    proof cases
      case 1
      then obtain r where "c # cs = w @ r" by (auto simp: starts_with_iff)
      then have "c # cs = [] @ w @ r" by simp
      then show ?thesis by blast
    next
      case 2
      with Cons obtain l r where "cs = l @ w @ r" by auto
      then have "c # cs = (c # l) @ w @ r" by simp
      then show ?thesis by blast
    qed
  next
    assume "\<exists>l r. c # cs = l @ w @ r"
    then obtain l r where lr: "c # cs = l @ w @ r" by auto
    show "regex_test_word w (c # cs)"
    proof (cases l)
      case Nil
      with lr have "starts_with w (c # cs)" by (auto simp: starts_with_iff)
      then show ?thesis by simp
    next
      case (Cons a l')
      with lr have "cs = l' @ w @ r" by simp
      with Cons.IH have "regex_test_word w cs" by blast
      then show ?thesis by simp
    qed
  qed
qed

lemma aurora_engines:
  "regex_test_word ''aurora'' (engine_value e) \<longleftrightarrow> e \<in> {Aurora, AuroraMysql, AuroraPostgresql}"
  by (cases e) simp_all

text \<open>
  With \<open>databaseCluster\<close> defined the constructor never succeeds: an engine that passes
  the first check meets the second, which is true for every props because \<open>props.vpc\<close>
  is required.
\<close>

lemma new_DatabaseInstance_with_cluster_throws:
  assumes "databaseCluster props = Some c"
  shows "isl (new_DatabaseInstance props)"
  using assms by (simp add: new_DatabaseInstance_def)

text \<open>
  C8. With \<open>databaseCluster\<close> defined, the constructor throws the error
  \<open>Cannot specify `databaseCluster` when engine is not aurora.\<close> exactly when the engine
  string matches \<open>/aurora/\<close>, that is for the three aurora engines; for every other
  engine this check does not throw (the constructor goes on to its second check).
\<close>

theorem databaseCluster_check_throws_iff_aurora:
  assumes "databaseCluster props = Some c"
  shows "(new_DatabaseInstance props
            = Inl (Error ''Cannot specify `databaseCluster` when engine is not aurora.'')
          \<longleftrightarrow> regex_test_word ''aurora'' (engine_value (engine props)))
         \<and> (regex_test_word ''aurora'' (engine_value (engine props))
          \<longleftrightarrow> engine props \<in> {Aurora, AuroraMysql, AuroraPostgresql})"
  using assms by (simp add: new_DatabaseInstance_def aurora_engines)

text \<open>
  A cluster member with the engine \<open>aurora-mysql\<close> is refused by the first check; with
  the engine \<open>mysql\<close> the first check passes.
\<close>

theorem databaseCluster_check_throws_iff_aurora_witness:
  "new_DatabaseInstance
     \<lparr>engine = AuroraMysql, multiAz = None, storageType = None, allocatedStorage = None,
      iops = None, masterUsername = None, masterUserPassword = None,
      generateMasterUserPassword = None, vpc = \<lparr>vpc_subnets = []\<rparr>, databaseName = None,
      port = None, optionGroup = None, characterSetName = None,
      backupRetentionPeriod = None, preferredBackupWindow = None,
      preferredMaintenanceWindow = None, deletionProtection = None,
      snapshotIdentifier = None,
      databaseCluster = Some \<lparr>ref_clusterIdentifier = ''cluster''\<rparr>,
      sourceDatabaseInstance = None\<rparr>
     = Inl (Error ''Cannot specify `databaseCluster` when engine is not aurora.'')
   \<and> new_DatabaseInstance
     \<lparr>engine = Mysql, multiAz = None, storageType = None, allocatedStorage = None,
      iops = None, masterUsername = None, masterUserPassword = None,
      generateMasterUserPassword = None, vpc = \<lparr>vpc_subnets = []\<rparr>, databaseName = None,
      port = None, optionGroup = None, characterSetName = None,
      backupRetentionPeriod = None, preferredBackupWindow = None,
      preferredMaintenanceWindow = None, deletionProtection = None,
      snapshotIdentifier = None,
      databaseCluster = Some \<lparr>ref_clusterIdentifier = ''cluster''\<rparr>,
      sourceDatabaseInstance = None\<rparr>
     \<noteq> Inl (Error ''Cannot specify `databaseCluster` when engine is not aurora.'')"
proof -
  let ?p = "\<lambda>e. \<lparr>engine = e, multiAz = None, storageType = None, allocatedStorage = None,
      iops = None, masterUsername = None, masterUserPassword = None,
      generateMasterUserPassword = None, vpc = \<lparr>vpc_subnets = []\<rparr>, databaseName = None,
      port = None, optionGroup = None, characterSetName = None,
      backupRetentionPeriod = None, preferredBackupWindow = None,
      preferredMaintenanceWindow = None, deletionProtection = None,
      snapshotIdentifier = None,
      databaseCluster = Some \<lparr>ref_clusterIdentifier = ''cluster''\<rparr>,
      sourceDatabaseInstance = None\<rparr>"
  have c: "databaseCluster (?p e) = Some \<lparr>ref_clusterIdentifier = ''cluster''\<rparr>" for e
    by simp
  have a: "engine (?p AuroraMysql) \<in> {Aurora, AuroraMysql, AuroraPostgresql}"
    and m: "engine (?p Mysql) \<notin> {Aurora, AuroraMysql, AuroraPostgresql}"
    by simp_all
  show ?thesis
    using databaseCluster_check_throws_iff_aurora [OF c [of AuroraMysql]]
      databaseCluster_check_throws_iff_aurora [OF c [of Mysql]] a m
    by blast
qed

section \<open>Replication tasks: the identifier check\<close>

lemma dotstar_dashdash_iff:
  "list_all dot s \<Longrightarrow> dotstar_dashdash s \<longleftrightarrow> regex_test_word ''--'' s"
  by (induction s) auto

lemma ident_char_dot: "ident_char c \<Longrightarrow> dot c"
  by (auto simp: ident_char_def dot_def is_letter_def is_digit_def)

text \<open>The regular expression accepts exactly the identifiers that meet the constraints.\<close>

lemma last_not_dash_iff:
  "s \<noteq> [] \<Longrightarrow> (case rev s of [] \<Rightarrow> True | c # cs \<Rightarrow> c \<noteq> CHR ''-'') \<longleftrightarrow> last s \<noteq> CHR ''-''"
  by (cases s rule: rev_cases) auto

lemma IDENTIFIER_REGEX_test_iff: "IDENTIFIER_REGEX_test s \<longleftrightarrow> identifier_constraints s"
proof (cases "s = []")
  case True
  then show ?thesis
    by (simp add: IDENTIFIER_REGEX_test_def identifier_constraints_def
        class_1_255_not_dash_end_def)
next
  case ne: False
  show ?thesis
  proof (cases "list_all ident_char s")
    case True
    then have "list_all dot s"
      by (induction s) (auto simp: ident_char_dot)
    then have dd: "dotstar_dashdash s \<longleftrightarrow> regex_test_word ''--'' s"
      by (rule dotstar_dashdash_iff)
    from True have cl: "list_all (\<lambda>c. is_letter c \<or> is_digit c \<or> c = CHR ''-'') s"
      by (auto simp: list_all_iff ident_char_def)
    from ne obtain c cs where s: "s = c # cs" by (cases s) auto
    then have la: "lookahead_not_dash_digit s \<longleftrightarrow> c \<noteq> CHR ''-'' \<and> \<not> is_digit c"
      by simp
    show ?thesis
      unfolding IDENTIFIER_REGEX_test_def identifier_constraints_def
        class_1_255_not_dash_end_def last_not_dash_iff [OF ne] la dd
      using True cl s by auto
  next
    case False
    then have "\<not> list_all (\<lambda>c. is_letter c \<or> is_digit c \<or> c = CHR ''-'') s"
      by (auto simp: list_all_iff ident_char_def)
    with False show ?thesis
      unfolding IDENTIFIER_REGEX_test_def identifier_constraints_def
        class_1_255_not_dash_end_def
      by blast
  qed
qed

text \<open>
  For an identifier that is given and not empty, the constructor throws the identifier
  error exactly when the identifier violates the constraints, and then no resource has
  been created; an identifier that meets them never triggers the error.
\<close>

lemma new_ReplicationTask_nonempty_identifier:
  assumes "replicationTaskIdentifier props = Some ident" and "ident \<noteq> []"
  shows "new_ReplicationTask props resources = Inl identifier_error
           \<longleftrightarrow> \<not> identifier_constraints ident"
  using assms by (simp add: new_ReplicationTask_def IDENTIFIER_REGEX_test_iff)

lemma new_ReplicationTask_valid_identifier:
  assumes "replicationTaskIdentifier props = Some ident" and "identifier_constraints ident"
  shows "\<exists>task. new_ReplicationTask props resources = Inr (resources @ [task])
           \<and> cfn_replicationTaskIdentifier task = Some ident"
  using assms by (simp add: new_ReplicationTask_def IDENTIFIER_REGEX_test_iff)

text \<open>
  C4 at the empty identifier. The empty string violates the constraints (it has no
  character, and the regular expression rejects it), yet the constructor does not throw:
  the test \<open>props.replicationTaskIdentifier && ...\<close> takes the empty string for an absent
  identifier, and the resource is created with the identifier \<open>''\<close>.
\<close>

theorem new_ReplicationTask_empty_identifier_accepted:
  "\<not> identifier_constraints ''''
   \<and> \<not> IDENTIFIER_REGEX_test ''''
   \<and> new_ReplicationTask
       \<lparr>migrationType = FULL_LOAD, replicationInstanceArn = ''arn:instance'',
        replicationTaskIdentifier = Some '''', sourceEndpointArn = ''arn:source'',
        tableMappings = ''{}'', targetEndpointArn = ''arn:target''\<rparr> []
     = Inr [\<lparr>cfn_migrationType = FULL_LOAD, cfn_replicationInstanceArn = ''arn:instance'',
             cfn_replicationTaskIdentifier = Some '''', cfn_sourceEndpointArn = ''arn:source'',
             cfn_tableMappings = ''{}'', cfn_targetEndpointArn = ''arn:target''\<rparr>]"
  by (simp add: identifier_constraints_def IDENTIFIER_REGEX_test_def
      class_1_255_not_dash_end_def new_ReplicationTask_def)

section \<open>Client VPN endpoints: the overlap check\<close>

lemma renderAuthenticationOptions_not_overlap:
  "renderAuthenticationOptions cert u
     \<noteq> Inl (Error ''The client CIDR cannot overlap with the local CIDR of the VPC'')"
  by (simp add: renderAuthenticationOptions_def Let_def)

lemma endpoint_after_cidr_check_not_overlap:
  "endpoint_after_cidr_check props
     \<noteq> Inl (Error ''The client CIDR cannot overlap with the local CIDR of the VPC'')"
proof -
  have "renderAuthenticationOptions (clientCertificate props) (userBasedAuthentication props)
          \<noteq> Inl (Error ''The client CIDR cannot overlap with the local CIDR of the VPC'')"
    by (rule renderAuthenticationOptions_not_overlap)
  then show ?thesis
    by (auto simp: endpoint_after_cidr_check_def split: sum.splits)
qed

text \<open>
  With a concrete VPC block whose two blocks parse, the overlap error is thrown exactly
  when the VPC block contains the client block.
\<close>

lemma new_ClientVpnEndpoint_concrete:
  assumes "\<not> isUnresolved (vpcCidrBlock (endpoint_vpc props))"
    and "CidrBlock (cidr props) = Inr clientCidr"
    and "CidrBlock (vpcCidrBlock (endpoint_vpc props)) = Inr vpcCidr"
  shows "new_ClientVpnEndpoint isUnresolved CidrBlock containsCidr props
           = Inl (Error ''The client CIDR cannot overlap with the local CIDR of the VPC'')
         \<longleftrightarrow> containsCidr vpcCidr clientCidr"
  using assms endpoint_after_cidr_check_not_overlap [of props]
  by (simp add: new_ClientVpnEndpoint_def cidr_overlap_check_def)

text \<open>
  C10. When \<open>props.vpc.vpcCidrBlock\<close> is an unresolved token, the constructor skips the
  overlap check: whatever \<open>CidrBlock\<close> and \<open>containsCidr\<close> would say, construction goes
  on with the rest of the constructor, and the error
  \<open>The client CIDR cannot overlap with the local CIDR of the VPC\<close> is not raised.
\<close>

theorem unresolved_vpc_cidr_skips_overlap_check:
  assumes "isUnresolved (vpcCidrBlock (endpoint_vpc props))"
  shows "new_ClientVpnEndpoint isUnresolved CidrBlock containsCidr props
           = endpoint_after_cidr_check props
         \<and> new_ClientVpnEndpoint isUnresolved CidrBlock containsCidr props
           \<noteq> Inl (Error ''The client CIDR cannot overlap with the local CIDR of the VPC'')"
proof -
  from assms have "cidr_overlap_check isUnresolved CidrBlock containsCidr props = Inr ()"
    by (simp add: cidr_overlap_check_def)
  then have "new_ClientVpnEndpoint isUnresolved CidrBlock containsCidr props
               = endpoint_after_cidr_check props"
    by (simp add: new_ClientVpnEndpoint_def)
  with endpoint_after_cidr_check_not_overlap [of props] show ?thesis
    by simp
qed

text \<open>
  A VPC whose block is a token, recognised here by its marker \<open>${Token[\<close>, and a
  \<open>containsCidr\<close> that would report an overlap for every pair of blocks.
\<close>

theorem unresolved_vpc_cidr_skips_overlap_check_witness:
  "new_ClientVpnEndpoint (regex_test_word ''${Token['') Inr (\<lambda>a b. True)
     \<lparr>cidr = ''10.100.0.0/16'', clientCertificate = Some \<lparr>certificateArn = ''arn:client''\<rparr>,
      userBasedAuthentication = None, logging = None, logGroup = None, logStream = None,
      dnsServers = None, selfServicePortal = None,
      serverCertificate = \<lparr>certificateArn = ''arn:server''\<rparr>, splitTunnel = None,
      endpoint_vpc = \<lparr>vpcCidrBlock = ''${Token[TOKEN.42]}'', vpcId = ''vpc-1''\<rparr>\<rparr>
   \<noteq> Inl (Error ''The client CIDR cannot overlap with the local CIDR of the VPC'')"
proof -
  let ?props = "\<lparr>cidr = ''10.100.0.0/16'', clientCertificate = Some \<lparr>certificateArn = ''arn:client''\<rparr>,
      userBasedAuthentication = None, logging = None, logGroup = None, logStream = None,
      dnsServers = None, selfServicePortal = None,
      serverCertificate = \<lparr>certificateArn = ''arn:server''\<rparr>, splitTunnel = None,
      endpoint_vpc = \<lparr>vpcCidrBlock = ''${Token[TOKEN.42]}'', vpcId = ''vpc-1''\<rparr>\<rparr>"
  have u: "regex_test_word ''${Token['' (vpcCidrBlock (endpoint_vpc ?props))"
    by simp
  show ?thesis
    using unresolved_vpc_cidr_skips_overlap_check
      [where isUnresolved = "regex_test_word ''${Token[''" and props = ?props
        and CidrBlock = Inr and containsCidr = "\<lambda>a b. True"] u
    by blast
qed

section \<open>Exports and imports\<close>

lemma makeOutput_fresh:
  assumes "this @ [name] \<notin> set (nodes t)"
  shows "makeOutput importValue this name val t
           = Inr (importValue (this @ [name]),
                  \<lparr>nodes = nodes t @ [this @ [name]],
                   outputs = outputs t @ [(this @ [name], val)]\<rparr>)"
  using assms by (simp add: makeOutput_def new_CfnOutput_def addChild_def and_then_def)

lemma makeOutput_taken:
  assumes "this @ [name] \<in> set (nodes t)"
  shows "makeOutput importValue this name val t = Inl (DuplicateSiblingId this name)"
  using assms by (simp add: makeOutput_def new_CfnOutput_def addChild_def and_then_def)

lemma DatabaseInstance_export_fresh:
  assumes "instance_node this @ [''InstanceId''] \<notin> set (nodes t)"
    and "instance_node this @ [''EndpointAddress''] \<notin> set (nodes t)"
    and "instance_node this @ [''Port''] \<notin> set (nodes t)"
    and "instance_node this @ [''SecurityGroupId''] \<notin> set (nodes t)"
  shows "DatabaseInstance_export importValue this t
     = Inr (\<lparr>import_instanceIdentifier = importValue (instance_node this @ [''InstanceId'']),
             import_endpointAddress = importValue (instance_node this @ [''EndpointAddress'']),
             import_port = importValue (instance_node this @ [''Port'']),
             import_securityGroupId = importValue (instance_node this @ [''SecurityGroupId''])\<rparr>,
            \<lparr>nodes = nodes t @ [instance_node this @ [''InstanceId''],
                                instance_node this @ [''EndpointAddress''],
                                instance_node this @ [''Port''],
                                instance_node this @ [''SecurityGroupId'']],
             outputs = outputs t @
               [(instance_node this @ [''InstanceId''], instanceIdentifier this),
                (instance_node this @ [''EndpointAddress''], hostname (instanceEndpoint this)),
                (instance_node this @ [''Port''], endpoint_port (instanceEndpoint this)),
                (instance_node this @ [''SecurityGroupId''], securityGroupId this)]\<rparr>)"
  using assms
  by (simp add: DatabaseInstance_export_def makeOutput_fresh and_then_def)

lemma DatabaseInstance_export_taken:
  assumes "instance_node this @ [''InstanceId''] \<in> set (nodes t)"
  shows "DatabaseInstance_export importValue this t
           = Inl (DuplicateSiblingId (instance_node this) ''InstanceId'')"
  using assms
  by (simp add: DatabaseInstance_export_def makeOutput_taken and_then_def)

lemma ClusterBase_export_fresh:
  assumes "cluster_node this @ [''ClusterName''] \<notin> set (nodes t)"
    and "cluster_node this @ [''ClusterArn''] \<notin> set (nodes t)"
    and "cluster_node this @ [''ClusterEndpoint''] \<notin> set (nodes t)"
  shows "ClusterBase_export importValue this t
     = Inr (\<lparr>import_clusterName = importValue (cluster_node this @ [''ClusterName'']),
             import_clusterArn = importValue (cluster_node this @ [''ClusterArn'']),
             import_clusterEndpoint = importValue (cluster_node this @ [''ClusterEndpoint''])\<rparr>,
            \<lparr>nodes = nodes t @ [cluster_node this @ [''ClusterName''],
                                cluster_node this @ [''ClusterArn''],
                                cluster_node this @ [''ClusterEndpoint'']],
             outputs = outputs t @
               [(cluster_node this @ [''ClusterName''], clusterName this),
                (cluster_node this @ [''ClusterArn''], clusterArn this),
                (cluster_node this @ [''ClusterEndpoint''], clusterEndpoint this)]\<rparr>)"
  using assms
  by (simp add: ClusterBase_export_def makeOutput_fresh and_then_def)

lemma ClusterBase_export_taken:
  assumes "cluster_node this @ [''ClusterName''] \<in> set (nodes t)"
  shows "ClusterBase_export importValue this t
           = Inl (DuplicateSiblingId (cluster_node this) ''ClusterName'')"
  using assms
  by (simp add: ClusterBase_export_def makeOutput_taken and_then_def)

subsection \<open>The reference tracker\<close>

lemma recordReferences_settled:
  assumes "unit_exports tr = [(unit_of p, p, a)]"
    and "unit_imports tr = [(A, unit_of p, p, a)]"
    and "list_all (\<lambda>c. unit_of c = A) cs"
    and "A \<noteq> unit_of p"
  shows "recordReferences unit_of cs p a tr = tr"
  using assms
  by (induction cs arbitrary: tr) (simp_all add: recordReference_def)

lemma recordReferences_once:
  assumes "list_all (\<lambda>c. unit_of c = A) cs" and "cs \<noteq> []" and "A \<noteq> unit_of p"
  shows "recordReferences unit_of cs p a empty_tracker
           = \<lparr>unit_exports = [(unit_of p, p, a)], unit_imports = [(A, unit_of p, p, a)]\<rparr>"
proof (cases cs)
  case Nil
  with assms show ?thesis by simp
next
  case (Cons c cs')
  let ?tr = "\<lparr>unit_exports = [(unit_of p, p, a)], unit_imports = [(A, unit_of p, p, a)]\<rparr>"
  from assms Cons have c: "unit_of c = A" and cs': "list_all (\<lambda>c. unit_of c = A) cs'"
    by simp_all
  from c assms(3) have first: "recordReference unit_of c p a empty_tracker = ?tr"
    by (simp add: recordReference_def empty_tracker_def)
  have "recordReferences unit_of cs' p a ?tr = ?tr"
    by (rule recordReferences_settled) (use cs' assms(3) in simp_all)
  with first Cons show ?thesis by simp
qed

text \<open>
  One reference, recorded in any tracker: inside one unit nothing changes; across units
  the export and the import of the reference are there afterwards, everything recorded
  before is kept, and nothing is listed twice.
\<close>

lemma recordReference_same_unit:
  "unit_of c = unit_of p \<Longrightarrow> recordReference unit_of c p a tr = tr"
  by (simp add: recordReference_def)

lemma recordReference_cross_unit:
  assumes "unit_of c \<noteq> unit_of p"
  shows "set (unit_exports (recordReference unit_of c p a tr))
           = insert (unit_of p, p, a) (set (unit_exports tr))"
    and "set (unit_imports (recordReference unit_of c p a tr))
           = insert (unit_of c, unit_of p, p, a) (set (unit_imports tr))"
    and "distinct (unit_exports tr) \<Longrightarrow> distinct (unit_exports (recordReference unit_of c p a tr))"
    and "distinct (unit_imports tr) \<Longrightarrow> distinct (unit_imports (recordReference unit_of c p a tr))"
  using assms by (simp_all add: recordReference_def)

lemma recordReference_distinct:
  "distinct (unit_exports tr) \<Longrightarrow> distinct (unit_exports (recordReference unit_of c p a tr))"
  "distinct (unit_imports tr) \<Longrightarrow> distinct (unit_imports (recordReference unit_of c p a tr))"
  by (simp_all add: recordReference_def)

lemma recordAll_distinct:
  "distinct (unit_exports tr) \<Longrightarrow> distinct (unit_exports (recordAll unit_of rs tr))"
  "distinct (unit_imports tr) \<Longrightarrow> distinct (unit_imports (recordAll unit_of rs tr))"
  by (induction unit_of rs tr rule: recordAll.induct) (simp_all add: recordReference_distinct)

lemma recordAll_exports:
  "set (unit_exports (recordAll unit_of rs tr))
     = set (unit_exports tr) \<union> export_of unit_of ` set (filter (crosses unit_of) rs)"
proof (induction unit_of rs tr rule: recordAll.induct)
  case (1 unit_of tr)
  then show ?case by simp
next
  case (2 unit_of c p a rs tr)
  show ?case
  proof (cases "unit_of c = unit_of p")
    case True
    with 2 show ?thesis by (simp add: recordReference_same_unit)
  next
    case False
    with 2 show ?thesis by (simp add: recordReference_cross_unit(1))
  qed
qed

lemma recordAll_imports:
  "set (unit_imports (recordAll unit_of rs tr))
     = set (unit_imports tr) \<union> import_of unit_of ` set (filter (crosses unit_of) rs)"
proof (induction unit_of rs tr rule: recordAll.induct)
  case (1 unit_of tr)
  then show ?case by simp
next
  case (2 unit_of c p a rs tr)
  show ?case
  proof (cases "unit_of c = unit_of p")
    case True
    with 2 show ?thesis by (simp add: recordReference_same_unit)
  next
    case False
    with 2 show ?thesis by (simp add: recordReference_cross_unit(2))
  qed
qed

text \<open>
  C9. For each of the three imported constructs, when the constructor succeeds on the
  props \<open>P\<close>, \<open>export()\<close> on the new construct returns \<open>P\<close> and leaves the tree, and
  with it the outputs declared in the stack, as it is.
\<close>

theorem import_then_export_returns_props:
  "(new_ImportedParameterGroup scope ident pg t = Inr (g, t1)
      \<longrightarrow> ImportedParameterGroup_export g t1 = (pg, t1))
   \<and> (new_ImportedDatabaseInstance scope ident di t = Inr (i, t2)
      \<longrightarrow> ImportedDatabaseInstance_export i t2 = (di, t2))
   \<and> (new_ImportedDatabaseCluster scope ident dc t = Inr (c, t3)
      \<longrightarrow> ImportedDatabaseCluster_export c t3 = (dc, t3))"
proof -
  have a: "new_ImportedParameterGroup scope ident pg t = Inr (g, t1)
             \<longrightarrow> ImportedParameterGroup_export g t1 = (pg, t1)"
    by (auto simp: new_ImportedParameterGroup_def ImportedParameterGroup_export_def
        and_then_def split: sum.splits prod.splits)
  have b: "new_ImportedDatabaseInstance scope ident di t = Inr (i, t2)
             \<longrightarrow> ImportedDatabaseInstance_export i t2 = (di, t2)"
    by (auto simp: new_ImportedDatabaseInstance_def ImportedDatabaseInstance_export_def
        and_then_def split: sum.splits prod.splits)
  have c: "new_ImportedDatabaseCluster scope ident dc t = Inr (c, t3)
             \<longrightarrow> ImportedDatabaseCluster_export c t3 = (dc, t3)"
    by (auto simp: new_ImportedDatabaseCluster_def ImportedDatabaseCluster_export_def
        and_then_def split: sum.splits prod.splits)
  from a b c show ?thesis by blast
qed

text \<open>
  The three constructors succeed under the scope \<open>Stack2\<close> of a tree that has only that
  node, and the exports return the props; the tree has no output before or after.
\<close>

theorem import_then_export_returns_props_witness:
  "ImportedParameterGroup_export
     \<lparr>ipg_props = \<lparr>import_parameterGroupName = ''pg-name''\<rparr>,
      ipg_parameterGroupName = ''pg-name''\<rparr>
     \<lparr>nodes = [[''Stack2''], [''Stack2'', ''Database'']], outputs = []\<rparr>
   = (\<lparr>import_parameterGroupName = ''pg-name''\<rparr>,
      \<lparr>nodes = [[''Stack2''], [''Stack2'', ''Database'']], outputs = []\<rparr>)
   \<and> ImportedDatabaseInstance_export
     \<lparr>idi_props = \<lparr>import_instanceIdentifier = ''db-1'', import_endpointAddress = ''host'',
                   import_port = ''3306'', import_securityGroupId = ''sg-1''\<rparr>,
      idi_instanceIdentifier = ''db-1'',
      idi_instanceEndpoint = \<lparr>hostname = ''host'', endpoint_port = ''3306''\<rparr>,
      idi_securityGroupId = ''sg-1''\<rparr>
     \<lparr>nodes = [[''Stack2''], [''Stack2'', ''Database''],
               [''Stack2'', ''Database'', ''SecurityGroup'']], outputs = []\<rparr>
   = (\<lparr>import_instanceIdentifier = ''db-1'', import_endpointAddress = ''host'',
       import_port = ''3306'', import_securityGroupId = ''sg-1''\<rparr>,
      \<lparr>nodes = [[''Stack2''], [''Stack2'', ''Database''],
                [''Stack2'', ''Database'', ''SecurityGroup'']], outputs = []\<rparr>)
   \<and> ImportedDatabaseCluster_export
     \<lparr>idc_props = \<lparr>import_cluster_port = ''3306'', import_cluster_securityGroupId = ''sg-1'',
                   import_clusterIdentifier = ''cluster-1'', import_instanceIdentifiers = [''i1''],
                   import_clusterEndpointAddress = ''w'', import_readerEndpointAddress = ''r'',
                   import_instanceEndpointAddresses = [''e1'']\<rparr>,
      idc_securityGroupId = ''sg-1'', idc_defaultPort = ''3306'',
      idc_clusterIdentifier = ''cluster-1'', idc_instanceIdentifiers = [],
      idc_clusterEndpoint = \<lparr>hostname = ''w'', endpoint_port = ''3306''\<rparr>,
      idc_readerEndpoint = \<lparr>hostname = ''r'', endpoint_port = ''3306''\<rparr>,
      idc_instanceEndpoints = [\<lparr>hostname = ''e1'', endpoint_port = ''3306''\<rparr>]\<rparr>
     \<lparr>nodes = [[''Stack2''], [''Stack2'', ''Database''],
               [''Stack2'', ''Database'', ''SecurityGroup'']], outputs = []\<rparr>
   = (\<lparr>import_cluster_port = ''3306'', import_cluster_securityGroupId = ''sg-1'',
       import_clusterIdentifier = ''cluster-1'', import_instanceIdentifiers = [''i1''],
       import_clusterEndpointAddress = ''w'', import_readerEndpointAddress = ''r'',
       import_instanceEndpointAddresses = [''e1'']\<rparr>,
      \<lparr>nodes = [[''Stack2''], [''Stack2'', ''Database''],
                [''Stack2'', ''Database'', ''SecurityGroup'']], outputs = []\<rparr>)"
proof -
  let ?t = "\<lparr>nodes = [[''Stack2'']], outputs = []\<rparr>"
  let ?pg = "\<lparr>import_parameterGroupName = ''pg-name''\<rparr>"
  let ?di = "\<lparr>import_instanceIdentifier = ''db-1'', import_endpointAddress = ''host'',
       import_port = ''3306'', import_securityGroupId = ''sg-1''\<rparr>"
  let ?dc = "\<lparr>import_cluster_port = ''3306'', import_cluster_securityGroupId = ''sg-1'',
       import_clusterIdentifier = ''cluster-1'', import_instanceIdentifiers = [''i1''],
       import_clusterEndpointAddress = ''w'', import_readerEndpointAddress = ''r'',
       import_instanceEndpointAddresses = [''e1'']\<rparr>"
  have g: "new_ImportedParameterGroup [''Stack2''] ''Database'' ?pg ?t
     = Inr (\<lparr>ipg_props = ?pg, ipg_parameterGroupName = ''pg-name''\<rparr>,
            \<lparr>nodes = [[''Stack2''], [''Stack2'', ''Database'']], outputs = []\<rparr>)"
    by (simp add: new_ImportedParameterGroup_def addChild_def and_then_def)
  have i: "new_ImportedDatabaseInstance [''Stack2''] ''Database'' ?di ?t
     = Inr (\<lparr>idi_props = ?di, idi_instanceIdentifier = ''db-1'',
             idi_instanceEndpoint = \<lparr>hostname = ''host'', endpoint_port = ''3306''\<rparr>,
             idi_securityGroupId = ''sg-1''\<rparr>,
            \<lparr>nodes = [[''Stack2''], [''Stack2'', ''Database''],
               [''Stack2'', ''Database'', ''SecurityGroup'']], outputs = []\<rparr>)"
    by (simp add: new_ImportedDatabaseInstance_def addChild_def and_then_def)
  have c: "new_ImportedDatabaseCluster [''Stack2''] ''Database'' ?dc ?t
     = Inr (\<lparr>idc_props = ?dc,
      idc_securityGroupId = ''sg-1'', idc_defaultPort = ''3306'',
      idc_clusterIdentifier = ''cluster-1'', idc_instanceIdentifiers = [],
      idc_clusterEndpoint = \<lparr>hostname = ''w'', endpoint_port = ''3306''\<rparr>,
      idc_readerEndpoint = \<lparr>hostname = ''r'', endpoint_port = ''3306''\<rparr>,
      idc_instanceEndpoints = [\<lparr>hostname = ''e1'', endpoint_port = ''3306''\<rparr>]\<rparr>,
            \<lparr>nodes = [[''Stack2''], [''Stack2'', ''Database''],
               [''Stack2'', ''Database'', ''SecurityGroup'']], outputs = []\<rparr>)"
    by (simp add: new_ImportedDatabaseCluster_def addChild_def and_then_def)
  from import_then_export_returns_props [THEN conjunct1, rule_format, OF g]
    import_then_export_returns_props [THEN conjunct2, THEN conjunct1, rule_format, OF i]
    import_then_export_returns_props [THEN conjunct2, THEN conjunct2, rule_format, OF c]
  show ?thesis by blast
qed

text \<open>
  C5, as stated, fails for \<open>export()\<close>. The first \<open>export()\<close> of a database instance
  declares its four outputs; a second \<open>export()\<close> of the same instance does not come
  back with the same export: it fails on the id \<open>InstanceId\<close>, which the first call
  has taken.
\<close>

theorem repeated_export_counterexample:
  "DatabaseInstance_export concat
     \<lparr>instance_node = [''Stack1'', ''Database''], instanceIdentifier = ''db-1'',
      instanceEndpoint = \<lparr>hostname = ''host'', endpoint_port = ''3306''\<rparr>,
      securityGroupId = ''sg-1''\<rparr>
     \<lparr>nodes = [[''Stack1''], [''Stack1'', ''Database'']], outputs = []\<rparr>
   = Inr (\<lparr>import_instanceIdentifier = ''Stack1DatabaseInstanceId'',
           import_endpointAddress = ''Stack1DatabaseEndpointAddress'',
           import_port = ''Stack1DatabasePort'',
           import_securityGroupId = ''Stack1DatabaseSecurityGroupId''\<rparr>,
          \<lparr>nodes = [[''Stack1''], [''Stack1'', ''Database''],
                    [''Stack1'', ''Database'', ''InstanceId''],
                    [''Stack1'', ''Database'', ''EndpointAddress''],
                    [''Stack1'', ''Database'', ''Port''],
                    [''Stack1'', ''Database'', ''SecurityGroupId'']],
           outputs = [([''Stack1'', ''Database'', ''InstanceId''], ''db-1''),
                      ([''Stack1'', ''Database'', ''EndpointAddress''], ''host''),
                      ([''Stack1'', ''Database'', ''Port''], ''3306''),
                      ([''Stack1'', ''Database'', ''SecurityGroupId''], ''sg-1'')]\<rparr>)
   \<and> DatabaseInstance_export concat
     \<lparr>instance_node = [''Stack1'', ''Database''], instanceIdentifier = ''db-1'',
      instanceEndpoint = \<lparr>hostname = ''host'', endpoint_port = ''3306''\<rparr>,
      securityGroupId = ''sg-1''\<rparr>
     \<lparr>nodes = [[''Stack1''], [''Stack1'', ''Database''],
               [''Stack1'', ''Database'', ''InstanceId''],
               [''Stack1'', ''Database'', ''EndpointAddress''],
               [''Stack1'', ''Database'', ''Port''],
               [''Stack1'', ''Database'', ''SecurityGroupId'']],
      outputs = [([''Stack1'', ''Database'', ''InstanceId''], ''db-1''),
                 ([''Stack1'', ''Database'', ''EndpointAddress''], ''host''),
                 ([''Stack1'', ''Database'', ''Port''], ''3306''),
                 ([''Stack1'', ''Database'', ''SecurityGroupId''], ''sg-1'')]\<rparr>
   = Inl (DuplicateSiblingId [''Stack1'', ''Database''] ''InstanceId'')"
  by (simp add: DatabaseInstance_export_def makeOutput_def new_CfnOutput_def addChild_def
      and_then_def)

lemma DatabaseInstance_export_once_then_fails:
  assumes fresh: "list_all (\<lambda>n. instance_node inst @ [n] \<notin> set (nodes t))
         [''InstanceId'', ''EndpointAddress'', ''Port'', ''SecurityGroupId'']"
  shows "\<exists>props t'. DatabaseInstance_export importValue inst t = Inr (props, t')
         \<and> outputs t' = outputs t @
              [(instance_node inst @ [''InstanceId''], instanceIdentifier inst),
               (instance_node inst @ [''EndpointAddress''], hostname (instanceEndpoint inst)),
               (instance_node inst @ [''Port''], endpoint_port (instanceEndpoint inst)),
               (instance_node inst @ [''SecurityGroupId''], securityGroupId inst)]
         \<and> DatabaseInstance_export importValue inst t'
             = Inl (DuplicateSiblingId (instance_node inst) ''InstanceId'')"
proof -
  let ?t' = "\<lparr>nodes = nodes t @ [instance_node inst @ [''InstanceId''],
                                instance_node inst @ [''EndpointAddress''],
                                instance_node inst @ [''Port''],
                                instance_node inst @ [''SecurityGroupId'']],
             outputs = outputs t @
               [(instance_node inst @ [''InstanceId''], instanceIdentifier inst),
                (instance_node inst @ [''EndpointAddress''], hostname (instanceEndpoint inst)),
                (instance_node inst @ [''Port''], endpoint_port (instanceEndpoint inst)),
                (instance_node inst @ [''SecurityGroupId''], securityGroupId inst)]\<rparr>"
  from fresh have first: "\<exists>props. DatabaseInstance_export importValue inst t = Inr (props, ?t')"
    by (simp add: DatabaseInstance_export_fresh)
  have "instance_node inst @ [''InstanceId''] \<in> set (nodes ?t')"
    by simp
  then have second: "DatabaseInstance_export importValue inst ?t'
             = Inl (DuplicateSiblingId (instance_node inst) ''InstanceId'')"
    by (rule DatabaseInstance_export_taken)
  have "outputs ?t' = outputs t @
              [(instance_node inst @ [''InstanceId''], instanceIdentifier inst),
               (instance_node inst @ [''EndpointAddress''], hostname (instanceEndpoint inst)),
               (instance_node inst @ [''Port''], endpoint_port (instanceEndpoint inst)),
               (instance_node inst @ [''SecurityGroupId''], securityGroupId inst)]"
    by simp
  with first second show ?thesis by blast
qed

lemma ClusterBase_export_once_then_fails:
  assumes fresh: "list_all (\<lambda>n. cluster_node cl @ [n] \<notin> set (nodes u))
         [''ClusterName'', ''ClusterArn'', ''ClusterEndpoint'']"
  shows "\<exists>props u'. ClusterBase_export importValue cl u = Inr (props, u')
         \<and> outputs u' = outputs u @
              [(cluster_node cl @ [''ClusterName''], clusterName cl),
               (cluster_node cl @ [''ClusterArn''], clusterArn cl),
               (cluster_node cl @ [''ClusterEndpoint''], clusterEndpoint cl)]
         \<and> ClusterBase_export importValue cl u'
             = Inl (DuplicateSiblingId (cluster_node cl) ''ClusterName'')"
proof -
  let ?u' = "\<lparr>nodes = nodes u @ [cluster_node cl @ [''ClusterName''],
                                cluster_node cl @ [''ClusterArn''],
                                cluster_node cl @ [''ClusterEndpoint'']],
             outputs = outputs u @
               [(cluster_node cl @ [''ClusterName''], clusterName cl),
                (cluster_node cl @ [''ClusterArn''], clusterArn cl),
                (cluster_node cl @ [''ClusterEndpoint''], clusterEndpoint cl)]\<rparr>"
  from fresh have first: "\<exists>props. ClusterBase_export importValue cl u = Inr (props, ?u')"
    by (simp add: ClusterBase_export_fresh)
  have "cluster_node cl @ [''ClusterName''] \<in> set (nodes ?u')"
    by simp
  then have second: "ClusterBase_export importValue cl ?u'
             = Inl (DuplicateSiblingId (cluster_node cl) ''ClusterName'')"
    by (rule ClusterBase_export_taken)
  have "outputs ?u' = outputs u @
              [(cluster_node cl @ [''ClusterName''], clusterName cl),
               (cluster_node cl @ [''ClusterArn''], clusterArn cl),
               (cluster_node cl @ [''ClusterEndpoint''], clusterEndpoint cl)]"
    by simp
  with first second show ?thesis by blast
qed

text \<open>
  C5, amended. The reference tracker materialises exactly one export and one import for
  each distinct pair a reference across units asks for. Recording a reference in any
  tracker keeps what was recorded before and lists nothing twice; a reference inside one
  unit changes nothing, and one across units leaves its export and its import recorded.
  After any list of references the exports and the imports are exactly those of the
  references that cross units, each listed once; so any number of references from the
  nodes of one unit to the same attribute of a node in another unit give one export and
  one import. The \<open>export()\<close> methods of \<open>DatabaseInstance\<close> and \<open>ClusterBase\<close> do
  not deduplicate: on a construct whose output ids are free, \<open>export()\<close> declares exactly
  one output for each exported attribute, and a repeated \<open>export()\<close> on the same
  construct fails with the duplicate-id construction error.
\<close>

theorem exports_once_and_export_not_repeatable:
  "(unit_of c = unit_of p \<longrightarrow> recordReference unit_of c p a tr = tr)
   \<and> (unit_of c \<noteq> unit_of p \<longrightarrow>
        set (unit_exports (recordReference unit_of c p a tr))
          = insert (unit_of p, p, a) (set (unit_exports tr))
        \<and> set (unit_imports (recordReference unit_of c p a tr))
          = insert (unit_of c, unit_of p, p, a) (set (unit_imports tr)))
   \<and> (distinct (unit_exports tr)
        \<longrightarrow> distinct (unit_exports (recordReference unit_of c p a tr)))
   \<and> (distinct (unit_imports tr)
        \<longrightarrow> distinct (unit_imports (recordReference unit_of c p a tr)))
   \<and> distinct (unit_exports (recordAll unit_of rs empty_tracker))
   \<and> distinct (unit_imports (recordAll unit_of rs empty_tracker))
   \<and> set (unit_exports (recordAll unit_of rs empty_tracker))
        = export_of unit_of ` set (filter (crosses unit_of) rs)
   \<and> set (unit_imports (recordAll unit_of rs empty_tracker))
        = import_of unit_of ` set (filter (crosses unit_of) rs)
   \<and> (list_all (\<lambda>c. unit_of c = A) cs \<and> cs \<noteq> [] \<and> A \<noteq> unit_of p \<longrightarrow>
      recordReferences unit_of cs p a empty_tracker
        = \<lparr>unit_exports = [(unit_of p, p, a)], unit_imports = [(A, unit_of p, p, a)]\<rparr>)
   \<and> (list_all (\<lambda>n. instance_node inst @ [n] \<notin> set (nodes t))
         [''InstanceId'', ''EndpointAddress'', ''Port'', ''SecurityGroupId''] \<longrightarrow>
      (\<exists>props t'. DatabaseInstance_export importValue inst t = Inr (props, t')
         \<and> outputs t' = outputs t @
              [(instance_node inst @ [''InstanceId''], instanceIdentifier inst),
               (instance_node inst @ [''EndpointAddress''], hostname (instanceEndpoint inst)),
               (instance_node inst @ [''Port''], endpoint_port (instanceEndpoint inst)),
               (instance_node inst @ [''SecurityGroupId''], securityGroupId inst)]
         \<and> DatabaseInstance_export importValue inst t'
             = Inl (DuplicateSiblingId (instance_node inst) ''InstanceId'')))
   \<and> (list_all (\<lambda>n. cluster_node cl @ [n] \<notin> set (nodes u))
         [''ClusterName'', ''ClusterArn'', ''ClusterEndpoint''] \<longrightarrow>
      (\<exists>props u'. ClusterBase_export importValue cl u = Inr (props, u')
         \<and> outputs u' = outputs u @
              [(cluster_node cl @ [''ClusterName''], clusterName cl),
               (cluster_node cl @ [''ClusterArn''], clusterArn cl),
               (cluster_node cl @ [''ClusterEndpoint''], clusterEndpoint cl)]
         \<and> ClusterBase_export importValue cl u'
             = Inl (DuplicateSiblingId (cluster_node cl) ''ClusterName'')))"
proof (intro conjI impI)
  assume "unit_of c = unit_of p"
  then show "recordReference unit_of c p a tr = tr"
    by (rule recordReference_same_unit)
next
  assume "unit_of c \<noteq> unit_of p"
  then show "set (unit_exports (recordReference unit_of c p a tr))
          = insert (unit_of p, p, a) (set (unit_exports tr))"
    by (rule recordReference_cross_unit(1))
next
  assume "unit_of c \<noteq> unit_of p"
  then show "set (unit_imports (recordReference unit_of c p a tr))
          = insert (unit_of c, unit_of p, p, a) (set (unit_imports tr))"
    by (rule recordReference_cross_unit(2))
next
  assume "distinct (unit_exports tr)"
  then show "distinct (unit_exports (recordReference unit_of c p a tr))"
    by (rule recordReference_distinct(1))
next
  assume "distinct (unit_imports tr)"
  then show "distinct (unit_imports (recordReference unit_of c p a tr))"
    by (rule recordReference_distinct(2))
next
  show "distinct (unit_exports (recordAll unit_of rs empty_tracker))"
    by (rule recordAll_distinct(1)) (simp add: empty_tracker_def)
next
  show "distinct (unit_imports (recordAll unit_of rs empty_tracker))"
    by (rule recordAll_distinct(2)) (simp add: empty_tracker_def)
next
  show "set (unit_exports (recordAll unit_of rs empty_tracker))
        = export_of unit_of ` set (filter (crosses unit_of) rs)"
    by (simp add: recordAll_exports empty_tracker_def)
next
  show "set (unit_imports (recordAll unit_of rs empty_tracker))
        = import_of unit_of ` set (filter (crosses unit_of) rs)"
    by (simp add: recordAll_imports empty_tracker_def)
next
  assume "list_all (\<lambda>c. unit_of c = A) cs \<and> cs \<noteq> [] \<and> A \<noteq> unit_of p"
  then show "recordReferences unit_of cs p a empty_tracker
        = \<lparr>unit_exports = [(unit_of p, p, a)], unit_imports = [(A, unit_of p, p, a)]\<rparr>"
    by (simp add: recordReferences_once)
next
  assume "list_all (\<lambda>n. instance_node inst @ [n] \<notin> set (nodes t))
         [''InstanceId'', ''EndpointAddress'', ''Port'', ''SecurityGroupId'']"
  then show "\<exists>props t'. DatabaseInstance_export importValue inst t = Inr (props, t')
         \<and> outputs t' = outputs t @
              [(instance_node inst @ [''InstanceId''], instanceIdentifier inst),
               (instance_node inst @ [''EndpointAddress''], hostname (instanceEndpoint inst)),
               (instance_node inst @ [''Port''], endpoint_port (instanceEndpoint inst)),
               (instance_node inst @ [''SecurityGroupId''], securityGroupId inst)]
         \<and> DatabaseInstance_export importValue inst t'
             = Inl (DuplicateSiblingId (instance_node inst) ''InstanceId'')"
    by (rule DatabaseInstance_export_once_then_fails)
next
  assume "list_all (\<lambda>n. cluster_node cl @ [n] \<notin> set (nodes u))
         [''ClusterName'', ''ClusterArn'', ''ClusterEndpoint'']"
  then show "\<exists>props u'. ClusterBase_export importValue cl u = Inr (props, u')
         \<and> outputs u' = outputs u @
              [(cluster_node cl @ [''ClusterName''], clusterName cl),
               (cluster_node cl @ [''ClusterArn''], clusterArn cl),
               (cluster_node cl @ [''ClusterEndpoint''], clusterEndpoint cl)]
         \<and> ClusterBase_export importValue cl u'
             = Inl (DuplicateSiblingId (cluster_node cl) ''ClusterName'')"
    by (rule ClusterBase_export_once_then_fails)
qed

text \<open>
  The unit of a node is the first id of its path. A tracker that holds the export of
  \<open>Arn\<close> from the unit \<open>B\<close> and its import into \<open>A\<close> records a reference from \<open>A\<close> to
  the attribute \<open>Name\<close> of the same node: both exports are there afterwards. A reference
  inside \<open>B\<close> changes nothing. Three references from nodes of \<open>A\<close> to \<open>Arn\<close> give one
  export and one import. Then the exports of an instance and of a cluster in a stack
  that has no output yet.
\<close>

theorem exports_once_and_export_not_repeatable_witness:
  "recordReference hd [''B'', ''queue''] [''B'', ''bucket''] ''Arn''
     \<lparr>unit_exports = [(''B'', [''B'', ''bucket''], ''Arn'')],
      unit_imports = [(''A'', ''B'', [''B'', ''bucket''], ''Arn'')]\<rparr>
     = \<lparr>unit_exports = [(''B'', [''B'', ''bucket''], ''Arn'')],
        unit_imports = [(''A'', ''B'', [''B'', ''bucket''], ''Arn'')]\<rparr>
   \<and> set (unit_exports (recordReference hd [''A'', ''x''] [''B'', ''bucket''] ''Name''
          \<lparr>unit_exports = [(''B'', [''B'', ''bucket''], ''Arn'')],
           unit_imports = [(''A'', ''B'', [''B'', ''bucket''], ''Arn'')]\<rparr>))
     = {(''B'', [''B'', ''bucket''], ''Name''), (''B'', [''B'', ''bucket''], ''Arn'')}
   \<and> distinct (unit_exports (recordReference hd [''A'', ''x''] [''B'', ''bucket''] ''Name''
          \<lparr>unit_exports = [(''B'', [''B'', ''bucket''], ''Arn'')],
           unit_imports = [(''A'', ''B'', [''B'', ''bucket''], ''Arn'')]\<rparr>))
   \<and> distinct (unit_imports (recordReference hd [''A'', ''x''] [''B'', ''bucket''] ''Name''
          \<lparr>unit_exports = [(''B'', [''B'', ''bucket''], ''Arn'')],
           unit_imports = [(''A'', ''B'', [''B'', ''bucket''], ''Arn'')]\<rparr>))
   \<and> recordReferences hd [[''A'', ''x''], [''A'', ''y''], [''A'', ''x'']] [''B'', ''bucket''] ''Arn''
     empty_tracker
     = \<lparr>unit_exports = [(''B'', [''B'', ''bucket''], ''Arn'')],
        unit_imports = [(''A'', ''B'', [''B'', ''bucket''], ''Arn'')]\<rparr>
   \<and> (\<exists>props t'. DatabaseInstance_export concat
          \<lparr>instance_node = [''Stack1'', ''Database''], instanceIdentifier = ''db-1'',
           instanceEndpoint = \<lparr>hostname = ''host'', endpoint_port = ''3306''\<rparr>,
           securityGroupId = ''sg-1''\<rparr>
          \<lparr>nodes = [[''Stack1''], [''Stack1'', ''Database'']], outputs = []\<rparr> = Inr (props, t')
        \<and> outputs t' = [([''Stack1'', ''Database'', ''InstanceId''], ''db-1''),
                         ([''Stack1'', ''Database'', ''EndpointAddress''], ''host''),
                         ([''Stack1'', ''Database'', ''Port''], ''3306''),
                         ([''Stack1'', ''Database'', ''SecurityGroupId''], ''sg-1'')]
        \<and> DatabaseInstance_export concat
          \<lparr>instance_node = [''Stack1'', ''Database''], instanceIdentifier = ''db-1'',
           instanceEndpoint = \<lparr>hostname = ''host'', endpoint_port = ''3306''\<rparr>,
           securityGroupId = ''sg-1''\<rparr> t'
          = Inl (DuplicateSiblingId [''Stack1'', ''Database''] ''InstanceId''))
   \<and> (\<exists>props u'. ClusterBase_export concat
          \<lparr>cluster_node = [''Stack1'', ''Cluster''], clusterName = ''eks'',
           clusterArn = ''arn:eks'', clusterEndpoint = ''https://eks''\<rparr>
          \<lparr>nodes = [[''Stack1''], [''Stack1'', ''Cluster'']], outputs = []\<rparr> = Inr (props, u')
        \<and> outputs u' = [([''Stack1'', ''Cluster'', ''ClusterName''], ''eks''),
                         ([''Stack1'', ''Cluster'', ''ClusterArn''], ''arn:eks''),
                         ([''Stack1'', ''Cluster'', ''ClusterEndpoint''], ''https://eks'')]
        \<and> ClusterBase_export concat
          \<lparr>cluster_node = [''Stack1'', ''Cluster''], clusterName = ''eks'',
           clusterArn = ''arn:eks'', clusterEndpoint = ''https://eks''\<rparr> u'
          = Inl (DuplicateSiblingId [''Stack1'', ''Cluster''] ''ClusterName''))"
proof -
  let ?inst = "\<lparr>instance_node = [''Stack1'', ''Database''], instanceIdentifier = ''db-1'',
           instanceEndpoint = \<lparr>hostname = ''host'', endpoint_port = ''3306''\<rparr>,
           securityGroupId = ''sg-1''\<rparr>"
  let ?t = "\<lparr>nodes = [[''Stack1''], [''Stack1'', ''Database'']], outputs = []\<rparr>"
  let ?cl = "\<lparr>cluster_node = [''Stack1'', ''Cluster''], clusterName = ''eks'',
           clusterArn = ''arn:eks'', clusterEndpoint = ''https://eks''\<rparr>"
  let ?u = "\<lparr>nodes = [[''Stack1''], [''Stack1'', ''Cluster'']], outputs = []\<rparr>"
  let ?cs = "[[''A'', ''x''], [''A'', ''y''], [''A'', ''x'']]"
  let ?tr = "\<lparr>unit_exports = [(''B'', [''B'', ''bucket''], ''Arn'')],
              unit_imports = [(''A'', ''B'', [''B'', ''bucket''], ''Arn'')]\<rparr>"
  have same: "hd [''B'', ''queue''] = hd [''B'', ''bucket'']"
    by simp
  have cross: "hd [''A'', ''x''] \<noteq> hd [''B'', ''bucket'']"
    by simp
  have de: "distinct (unit_exports ?tr)" and di: "distinct (unit_imports ?tr)"
    by simp_all
  have h1: "list_all (\<lambda>c. hd c = ''A'') ?cs \<and> ?cs \<noteq> [] \<and> ''A'' \<noteq> hd [''B'', ''bucket'']"
    by simp
  have h2: "list_all (\<lambda>n. instance_node ?inst @ [n] \<notin> set (nodes ?t))
         [''InstanceId'', ''EndpointAddress'', ''Port'', ''SecurityGroupId'']"
    by simp
  have h3: "list_all (\<lambda>n. cluster_node ?cl @ [n] \<notin> set (nodes ?u))
         [''ClusterName'', ''ClusterArn'', ''ClusterEndpoint'']"
    by simp
  note in_unit = exports_once_and_export_not_repeatable
    [where unit_of = hd and c = "[''B'', ''queue'']" and p = "[''B'', ''bucket'']"
      and a = "''Arn''" and tr = ?tr]
  note across = exports_once_and_export_not_repeatable
    [where unit_of = hd and c = "[''A'', ''x'']" and p = "[''B'', ''bucket'']"
      and a = "''Name''" and tr = ?tr]
  note at_input = exports_once_and_export_not_repeatable
    [where unit_of = hd and A = "''A''" and cs = ?cs and p = "[''B'', ''bucket'']"
      and a = "''Arn''" and inst = ?inst and t = ?t and cl = ?cl and u = ?u
      and importValue = concat]
  have s: "recordReference hd [''B'', ''queue''] [''B'', ''bucket''] ''Arn'' ?tr = ?tr"
    using in_unit same by blast
  have x: "set (unit_exports (recordReference hd [''A'', ''x''] [''B'', ''bucket''] ''Name'' ?tr))
     = {(''B'', [''B'', ''bucket''], ''Name''), (''B'', [''B'', ''bucket''], ''Arn'')}"
  proof -
    from across cross
    have "set (unit_exports (recordReference hd [''A'', ''x''] [''B'', ''bucket''] ''Name'' ?tr))
          = insert (hd [''B'', ''bucket''], [''B'', ''bucket''], ''Name'') (set (unit_exports ?tr))"
      by blast
    then show ?thesis by simp
  qed
  have d1: "distinct (unit_exports (recordReference hd [''A'', ''x''] [''B'', ''bucket''] ''Name'' ?tr))"
    using across de by blast
  have d2: "distinct (unit_imports (recordReference hd [''A'', ''x''] [''B'', ''bucket''] ''Name'' ?tr))"
    using across di by blast
  have a: "recordReferences hd ?cs [''B'', ''bucket''] ''Arn'' empty_tracker
     = \<lparr>unit_exports = [(''B'', [''B'', ''bucket''], ''Arn'')],
        unit_imports = [(''A'', ''B'', [''B'', ''bucket''], ''Arn'')]\<rparr>"
  proof -
    from at_input h1
    have "recordReferences hd ?cs [''B'', ''bucket''] ''Arn'' empty_tracker
      = \<lparr>unit_exports = [(hd [''B'', ''bucket''], [''B'', ''bucket''], ''Arn'')],
         unit_imports = [(''A'', hd [''B'', ''bucket''], [''B'', ''bucket''], ''Arn'')]\<rparr>"
      by blast
    then show ?thesis by simp
  qed
  have b: "\<exists>props t'. DatabaseInstance_export concat ?inst ?t = Inr (props, t')
        \<and> outputs t' = [([''Stack1'', ''Database'', ''InstanceId''], ''db-1''),
                         ([''Stack1'', ''Database'', ''EndpointAddress''], ''host''),
                         ([''Stack1'', ''Database'', ''Port''], ''3306''),
                         ([''Stack1'', ''Database'', ''SecurityGroupId''], ''sg-1'')]
        \<and> DatabaseInstance_export concat ?inst t'
          = Inl (DuplicateSiblingId [''Stack1'', ''Database''] ''InstanceId'')"
  proof -
    from at_input h2
    have "\<exists>props t'. DatabaseInstance_export concat ?inst ?t = Inr (props, t')
         \<and> outputs t' = outputs ?t @
              [(instance_node ?inst @ [''InstanceId''], instanceIdentifier ?inst),
               (instance_node ?inst @ [''EndpointAddress''], hostname (instanceEndpoint ?inst)),
               (instance_node ?inst @ [''Port''], endpoint_port (instanceEndpoint ?inst)),
               (instance_node ?inst @ [''SecurityGroupId''], securityGroupId ?inst)]
         \<and> DatabaseInstance_export concat ?inst t'
             = Inl (DuplicateSiblingId (instance_node ?inst) ''InstanceId'')"
      by blast
    then show ?thesis by simp
  qed
  have c: "\<exists>props u'. ClusterBase_export concat ?cl ?u = Inr (props, u')
        \<and> outputs u' = [([''Stack1'', ''Cluster'', ''ClusterName''], ''eks''),
                         ([''Stack1'', ''Cluster'', ''ClusterArn''], ''arn:eks''),
                         ([''Stack1'', ''Cluster'', ''ClusterEndpoint''], ''https://eks'')]
        \<and> ClusterBase_export concat ?cl u'
          = Inl (DuplicateSiblingId [''Stack1'', ''Cluster''] ''ClusterName'')"
  proof -
    from at_input h3
    have "\<exists>props u'. ClusterBase_export concat ?cl ?u = Inr (props, u')
         \<and> outputs u' = outputs ?u @
              [(cluster_node ?cl @ [''ClusterName''], clusterName ?cl),
               (cluster_node ?cl @ [''ClusterArn''], clusterArn ?cl),
               (cluster_node ?cl @ [''ClusterEndpoint''], clusterEndpoint ?cl)]
         \<and> ClusterBase_export concat ?cl u'
             = Inl (DuplicateSiblingId (cluster_node ?cl) ''ClusterName'')"
      by blast
    then show ?thesis by simp
  qed
  from s x d1 d2 a b c show ?thesis by blast
qed

section \<open>Resolution\<close>

subsection \<open>The marker encoding\<close>

lemma decode_marker_example:
  "decode_marker ''name-${Token[7]}-suffix'' = [Literal ''name-'', Embedded 7, Literal ''-suffix'']"
  by (simp add: parse_marker_def is_digit_def decimal_value_def digit_value_def)

lemma decode_marker_plain:
  "decode_marker ''mysql'' = [Literal ''mysql'']"
  "decode_marker ''X'' = [Literal ''X'']"
  "decode_marker ''Db'' = [Literal ''Db'']"
  by (simp_all add: parse_marker_def)

lemma place_in_nth:
  "distinct ds \<Longrightarrow> n < length ds \<Longrightarrow> place_in (ds ! n) ds = n"
proof (induction ds arbitrary: n)
  case Nil
  then show ?case by simp
next
  case (Cons d ds)
  show ?case
  proof (cases n)
    case 0
    then show ?thesis by simp
  next
    case (Suc m)
    with Cons.prems have m: "m < length ds" and "distinct ds" and "d \<notin> set ds"
      by simp_all
    then have "ds ! m \<noteq> d" and "place_in (ds ! m) ds = m"
      using Cons.IH nth_mem by fastforce+
    with Suc show ?thesis by simp
  qed
qed

lemma digit_char:
  assumes "n < 10"
  shows "is_digit (''0123456789'' ! n) \<and> digit_value (''0123456789'' ! n) = n"
proof -
  have len: "length ''0123456789'' = 10" and dist: "distinct ''0123456789''"
    by simp_all
  from assms len have n: "n < length ''0123456789''"
    by (simp only:)
  then have "''0123456789'' ! n \<in> set ''0123456789''"
    by (rule nth_mem)
  moreover have "place_in (''0123456789'' ! n) ''0123456789'' = n"
    using dist n by (rule place_in_nth)
  ultimately show ?thesis
    by (simp only: is_digit_def digit_value_def)
qed

lemma digits_of_digits: "list_all is_digit (digits_of n)"
proof (induction n rule: digits_of.induct)
  case (1 n)
  show ?case
  proof (cases "n < 10")
    case True
    then show ?thesis by (subst digits_of.simps) (simp add: digit_char)
  next
    case False
    moreover have "n mod 10 < 10" by simp
    ultimately show ?thesis
      using 1 by (subst digits_of.simps) (simp add: digit_char)
  qed
qed

lemma digits_of_not_empty: "digits_of n \<noteq> []"
  by (subst digits_of.simps) simp

lemma decimal_value_snoc: "decimal_value (ds @ [c]) = 10 * decimal_value ds + digit_value c"
  by (simp add: decimal_value_def)

lemma decimal_value_digits_of: "decimal_value (digits_of n) = n"
proof (induction n rule: digits_of.induct)
  case (1 n)
  show ?case
  proof (cases "n < 10")
    case True
    then show ?thesis
      by (subst digits_of.simps) (simp add: decimal_value_def digit_char)
  next
    case False
    moreover have "n mod 10 < 10" by simp
    ultimately show ?thesis
      using 1 by (subst digits_of.simps) (simp add: decimal_value_snoc digit_char)
  qed
qed

lemma parse_marker_encode:
  "parse_marker (encode_marker h @ rest) = Some (h, rest)"
proof -
  have tw: "takeWhile is_digit (digits_of h @ CHR '']'' # CHR ''}'' # rest) = digits_of h"
    using digits_of_digits [of h]
    by (simp add: takeWhile_append list_all_iff is_digit_def)
  have dw: "dropWhile is_digit (digits_of h @ CHR '']'' # CHR ''}'' # rest) = CHR '']'' # CHR ''}'' # rest"
    using digits_of_digits [of h]
    by (simp add: dropWhile_append list_all_iff is_digit_def)
  show ?thesis
    by (simp add: parse_marker_def encode_marker_def tw dw Let_def digits_of_not_empty
        decimal_value_digits_of)
qed

text \<open>The encoding is reversible: a marker decodes to its Token, whatever follows it.\<close>

lemma decode_marker_encode:
  "decode_marker (encode_marker h @ rest) = Embedded h # decode_marker rest"
proof -
  obtain c cs where s: "encode_marker h @ rest = c # cs"
    by (cases "encode_marker h @ rest") (simp_all add: encode_marker_def)
  have "parse_marker (c # cs) = Some (h, rest)"
    using parse_marker_encode [of h rest] s by simp
  then have "decode_marker (c # cs) = Embedded h # decode_marker rest"
    by simp
  with s show ?thesis by simp
qed

text \<open>
  Splicing: a Token inside a string that resolves to the scalar \<open>X\<close> is replaced by
  \<open>X\<close>; when it resolves to a mapping, the result is the join expression.
\<close>

lemma resolve_splices_scalar:
  "resolve decode_marker (\<lambda>h. if h = 7 then Some (\<lambda>c. Inr (Primitive (String ''X''))) else None)
     ctx (Suc depth) (Primitive (String ''name-${Token[7]}-suffix''))
   = Inr (Primitive (String ''name-X-suffix''))"
  by (simp del: decode_marker.simps add: decode_marker_example decode_marker_plain splice_def)

lemma resolve_joins_non_scalar:
  "resolve decode_marker
     (\<lambda>h. if h = 7 then Some (\<lambda>c. Inr (Mapping [(''Ref'', Primitive (String ''Db''))])) else None)
     ctx (Suc depth) (Primitive (String ''name-${Token[7]}-suffix''))
   = Inr (Mapping [(''Fn::Join'', Sequence [Primitive (String []),
        Sequence [Primitive (String ''name-''), Mapping [(''Ref'', Primitive (String ''Db''))],
                  Primitive (String ''-suffix'')]])])"
  by (simp del: decode_marker.simps add: decode_marker_example decode_marker_plain splice_def)

subsection \<open>Token-free values\<close>

lemma resolve_token_free:
  "token_free dec v \<Longrightarrow> resolve dec tk ctx depth v = Inr v"
  "token_free_elements dec vs \<Longrightarrow> resolve_elements dec tk ctx depth vs = Inr vs"
  "token_free_entries dec kvs \<Longrightarrow> resolve_entries dec tk ctx depth kvs = Inr kvs"
  by (induction dec v and dec vs and dec kvs
      rule: token_free_token_free_elements_token_free_entries.induct)
    simp_all

text \<open>
  C6. Resolution returns a Token-free value unchanged, whatever the decoder, the Tokens
  known, the context and the depth allowed. In particular it returns every primitive
  unchanged: null, a boolean, a number, and a string in which no Token is embedded (a
  string that carries the sentinel of a Token is not resolved yet).
\<close>

theorem resolve_identity_on_token_free:
  "(token_free dec v \<longrightarrow> resolve dec tk ctx depth v = Inr v)
   \<and> resolve dec tk ctx depth (Primitive Null) = Inr (Primitive Null)
   \<and> resolve dec tk ctx depth (Primitive (Boolean b)) = Inr (Primitive (Boolean b))
   \<and> resolve dec tk ctx depth (Primitive (Number n)) = Inr (Primitive (Number n))
   \<and> (list_all is_literal (dec s)
        \<longrightarrow> resolve dec tk ctx depth (Primitive (String s)) = Inr (Primitive (String s)))"
proof (intro conjI)
  show "token_free dec v \<longrightarrow> resolve dec tk ctx depth v = Inr v"
    using resolve_token_free(1) [of dec v tk ctx depth] by blast
next
  show "list_all is_literal (dec s)
        \<longrightarrow> resolve dec tk ctx depth (Primitive (String s)) = Inr (Primitive (String s))"
    by simp
qed simp_all

text \<open>
  A nested value with strings, under the marker encoding and with no Token known, and a
  string on its own.
\<close>

theorem resolve_identity_on_token_free_witness:
  "resolve decode_marker (\<lambda>h. None)
     \<lparr>current_unit = ''Stack'', current_node = [''Stack'', ''Database'']\<rparr> 0
     (Mapping [(''Engine'', Primitive (String ''mysql'')),
               (''Tags'', Sequence [Primitive (Number 1), Primitive Null,
                                    Mapping [(''MultiAZ'', Primitive (Boolean True))]])])
   = Inr (Mapping [(''Engine'', Primitive (String ''mysql'')),
               (''Tags'', Sequence [Primitive (Number 1), Primitive Null,
                                    Mapping [(''MultiAZ'', Primitive (Boolean True))]])])
   \<and> resolve decode_marker (\<lambda>h. None)
     \<lparr>current_unit = ''Stack'', current_node = [''Stack'', ''Database'']\<rparr> 0
     (Primitive (String ''mysql''))
   = Inr (Primitive (String ''mysql''))"
proof -
  let ?v = "Mapping [(''Engine'', Primitive (String ''mysql'')),
               (''Tags'', Sequence [Primitive (Number 1), Primitive Null,
                                    Mapping [(''MultiAZ'', Primitive (Boolean True))]])]"
  have tf: "token_free decode_marker ?v"
    by (simp del: decode_marker.simps add: decode_marker_plain)
  have lit: "list_all is_literal (decode_marker ''mysql'')"
    by (simp del: decode_marker.simps add: decode_marker_plain)
  from resolve_identity_on_token_free [where dec = decode_marker and v = ?v and s = "''mysql''"]
    tf lit
  show ?thesis by blast
qed

subsection \<open>Tokens that lead back to themselves\<close>

lemma first_embedded_not_all_literal: "first_embedded S fs \<Longrightarrow> \<not> list_all is_literal fs"
  by (induction S fs rule: first_embedded.induct) auto

lemma list_ex_embeds_not_all_literal: "list_ex (embeds S) fs \<Longrightarrow> \<not> list_all is_literal fs"
proof (induction fs)
  case Nil
  then show ?case by simp
next
  case (Cons f fs)
  then show ?case by (cases f) auto
qed

text \<open>
  When the resolvers of the Tokens of \<open>S\<close> return values that lead to \<open>S\<close> again,
  resolving a value that leads to \<open>S\<close> fails with the circular-or-runaway error. The
  statement for the fragments of a string has its own induction on the fragments.
\<close>

lemma resolve_fragments_runaway:
  assumes tok: "\<And>h. h \<in> S \<Longrightarrow> resolve dec tk ctx depth (Tok h) = Inl CircularOrRunawayToken"
  shows "first_embedded S fs
     \<Longrightarrow> resolve_fragments dec tk ctx depth fs = Inl CircularOrRunawayToken"
proof (induction fs)
  case Nil
  then show ?case by simp
next
  case (Cons f fs)
  show ?case
  proof (cases f)
    case (Literal t)
    with Cons show ?thesis by simp
  next
    case (Embedded h)
    with Cons.prems have "h \<in> S" by simp
    then have "resolve dec tk ctx depth (Tok h) = Inl CircularOrRunawayToken"
      by (rule tok)
    with Embedded show ?thesis
      by (simp del: resolve.simps)
  qed
qed

lemma resolve_leads_to_runaway_step:
  assumes tok: "\<And>h. h \<in> S \<Longrightarrow> resolve dec tk ctx depth (Tok h) = Inl CircularOrRunawayToken"
  shows "leads_to dec S v \<Longrightarrow> resolve dec tk ctx depth v = Inl CircularOrRunawayToken"
    and "leads_to_elements dec S vs
      \<Longrightarrow> resolve_elements dec tk ctx depth vs = Inl CircularOrRunawayToken"
    and "leads_to_entries dec S kvs
      \<Longrightarrow> resolve_entries dec tk ctx depth kvs = Inl CircularOrRunawayToken"
  using tok
proof (induction dec S v and dec S vs and dec S kvs
    rule: leads_to_leads_to_elements_leads_to_entries.induct)
  case (4 dec S s)
  from "4.prems"(1) have fe: "first_embedded S (dec s)" by simp
  then have "\<not> list_all is_literal (dec s)"
    by (rule first_embedded_not_all_literal)
  moreover have "resolve_fragments dec tk ctx depth (dec s) = Inl CircularOrRunawayToken"
    using "4.prems"(2) fe by (rule resolve_fragments_runaway)
  ultimately show ?case by simp
next
  case (7 dec S h)
  from "7.prems"(1) have "h \<in> S" by simp
  then show ?case by (rule "7.prems"(2))
next
  case (9 dec S v vs)
  from "9.prems"(1) consider "leads_to dec S v"
    | "token_free dec v" "leads_to_elements dec S vs" by auto
  then show ?case
  proof cases
    case 1
    then have "resolve dec tk ctx depth v = Inl CircularOrRunawayToken"
      using "9.IH"(1) "9.prems"(2) by blast
    then show ?thesis by simp
  next
    case 2
    then have "resolve dec tk ctx depth v = Inr v"
      by (simp add: resolve_token_free)
    moreover have "resolve_elements dec tk ctx depth vs = Inl CircularOrRunawayToken"
      using "9.IH"(2) 2 "9.prems"(2) by blast
    ultimately show ?thesis by simp
  qed
next
  case (11 dec S k v kvs)
  from "11.prems"(1) consider "leads_to dec S v"
    | "token_free dec v" "leads_to_entries dec S kvs" by auto
  then show ?case
  proof cases
    case 1
    then have "resolve dec tk ctx depth v = Inl CircularOrRunawayToken"
      using "11.IH"(1) "11.prems"(2) by blast
    then show ?thesis by simp
  next
    case 2
    then have "resolve dec tk ctx depth v = Inr v"
      by (simp add: resolve_token_free)
    moreover have "resolve_entries dec tk ctx depth kvs = Inl CircularOrRunawayToken"
      using "11.IH"(2) 2 "11.prems"(2) by blast
    ultimately show ?thesis by simp
  qed
qed simp_all

lemma resolve_leads_to_runaway:
  assumes cyc: "\<forall>h \<in> S. \<exists>r w. tk h = Some r \<and> r ctx = Inr w \<and> leads_to dec S w"
    and v: "leads_to dec S v"
  shows "resolve dec tk ctx depth v = Inl CircularOrRunawayToken"
proof -
  have tok: "h \<in> S \<Longrightarrow> resolve dec tk ctx d (Tok h) = Inl CircularOrRunawayToken" for h d
  proof (induction d arbitrary: h)
    case 0
    with cyc obtain r where "tk h = Some r" by blast
    then show ?case by simp
  next
    case (Suc d)
    with cyc obtain r w where r: "tk h = Some r" "r ctx = Inr w" and w: "leads_to dec S w"
      by blast
    have "resolve dec tk ctx d w = Inl CircularOrRunawayToken"
      using Suc.IH w by (rule resolve_leads_to_runaway_step(1))
    with r show ?case by simp
  qed
  show ?thesis
    using tok v by (rule resolve_leads_to_runaway_step(1))
qed

text \<open>
  When the resolvers of the Tokens of \<open>S\<close> return values that mention \<open>S\<close>, resolving
  a value that mentions \<open>S\<close> ends in an error: the first one met, which need not be the
  circular-or-runaway error when other Tokens stand before those of \<open>S\<close>.
\<close>

lemma resolve_fragments_fails:
  assumes tok: "\<And>h. h \<in> S \<Longrightarrow> isl (resolve dec tk ctx depth (Tok h))"
  shows "list_ex (embeds S) fs \<Longrightarrow> isl (resolve_fragments dec tk ctx depth fs)"
proof (induction fs)
  case Nil
  then show ?case by simp
next
  case (Cons f fs)
  show ?case
  proof (cases f)
    case (Literal t)
    with Cons show ?thesis by (auto split: sum.splits)
  next
    case (Embedded h)
    show ?thesis
    proof (cases "h \<in> S")
      case True
      then have "isl (resolve dec tk ctx depth (Tok h))" by (rule tok)
      with Embedded show ?thesis
        by (auto simp del: resolve.simps split: sum.splits)
    next
      case False
      with Cons Embedded have "isl (resolve_fragments dec tk ctx depth fs)" by simp
      with Embedded show ?thesis
        by (auto simp del: resolve.simps split: sum.splits)
    qed
  qed
qed

lemma resolve_mentions_fails_step:
  assumes tok: "\<And>h. h \<in> S \<Longrightarrow> isl (resolve dec tk ctx depth (Tok h))"
  shows "mentions dec S v \<Longrightarrow> isl (resolve dec tk ctx depth v)"
    and "mentions_elements dec S vs \<Longrightarrow> isl (resolve_elements dec tk ctx depth vs)"
    and "mentions_entries dec S kvs \<Longrightarrow> isl (resolve_entries dec tk ctx depth kvs)"
  using tok
proof (induction dec S v and dec S vs and dec S kvs
    rule: mentions_mentions_elements_mentions_entries.induct)
  case (4 dec S s)
  from "4.prems"(1) have le: "list_ex (embeds S) (dec s)" by simp
  then have "\<not> list_all is_literal (dec s)"
    by (rule list_ex_embeds_not_all_literal)
  moreover have "isl (resolve_fragments dec tk ctx depth (dec s))"
    using "4.prems"(2) le by (rule resolve_fragments_fails)
  ultimately show ?case by (auto split: sum.splits)
next
  case (5 dec S vs)
  then have "isl (resolve_elements dec tk ctx depth vs)" by simp
  then show ?case by (auto split: sum.splits)
next
  case (6 dec S kvs)
  then have "isl (resolve_entries dec tk ctx depth kvs)" by simp
  then show ?case by (auto split: sum.splits)
next
  case (7 dec S h)
  from "7.prems"(1) have "h \<in> S" by simp
  then show ?case by (rule "7.prems"(2))
next
  case (9 dec S v vs)
  show ?case
  proof (cases "resolve dec tk ctx depth v")
    case (Inl e)
    then show ?thesis by simp
  next
    case (Inr v')
    with "9.IH"(1) "9.prems" have "\<not> mentions dec S v" by auto
    with "9.prems"(1) have "mentions_elements dec S vs" by simp
    then have "isl (resolve_elements dec tk ctx depth vs)"
      using "9.IH"(2) "9.prems"(2) by blast
    with Inr show ?thesis by (auto split: sum.splits)
  qed
next
  case (11 dec S k v kvs)
  show ?case
  proof (cases "resolve dec tk ctx depth v")
    case (Inl e)
    then show ?thesis by simp
  next
    case (Inr v')
    with "11.IH"(1) "11.prems" have "\<not> mentions dec S v" by auto
    with "11.prems"(1) have "mentions_entries dec S kvs" by simp
    then have "isl (resolve_entries dec tk ctx depth kvs)"
      using "11.IH"(2) "11.prems"(2) by blast
    with Inr show ?thesis by (auto split: sum.splits)
  qed
qed simp_all

lemma resolve_mentions_fails:
  assumes cyc: "\<forall>h \<in> S. \<exists>r w. tk h = Some r \<and> r ctx = Inr w \<and> mentions dec S w"
    and v: "mentions dec S v"
  shows "isl (resolve dec tk ctx depth v)"
proof -
  have tok: "h \<in> S \<Longrightarrow> isl (resolve dec tk ctx d (Tok h))" for h d
  proof (induction d arbitrary: h)
    case 0
    with cyc obtain r where "tk h = Some r" by blast
    then show ?case by simp
  next
    case (Suc d)
    with cyc obtain r w where r: "tk h = Some r" "r ctx = Inr w" and w: "mentions dec S w"
      by blast
    have "isl (resolve dec tk ctx d w)"
      using Suc.IH w by (rule resolve_mentions_fails_step(1))
    with r show ?case by simp
  qed
  show ?thesis
    using tok v by (rule resolve_mentions_fails_step(1))
qed

text \<open>
  C7. \<open>resolve\<close> is a total function: it is defined by recursion along an order in which
  every Token expansion, of a Token value or of a Token embedded in a string, lowers the
  depth allowed, and every other step goes to a part of the value or to the fragments of
  a string; so resolution returns on every input. When the resolvers of a set of Tokens
  return values that lead to Tokens of the set again (a Token of the set itself, a string
  that embeds one, or a sequence or mapping whose first Token is one), resolving a value
  that leads to the set fails with the circular-or-runaway error at every depth. When
  the Tokens of the set merely occur in what the resolvers return, resolving a value in
  which one of them occurs ends in an error.
\<close>

theorem resolve_self_reference_fails:
  "((\<forall>h \<in> S. \<exists>r w. tk h = Some r \<and> r ctx = Inr w \<and> leads_to dec S w) \<and> leads_to dec S v
      \<longrightarrow> resolve dec tk ctx depth v = Inl CircularOrRunawayToken)
   \<and> ((\<forall>h \<in> S. \<exists>r w. tk h = Some r \<and> r ctx = Inr w \<and> mentions dec S w) \<and> mentions dec S v
      \<longrightarrow> isl (resolve dec tk ctx depth v))"
  using resolve_leads_to_runaway [of S tk ctx dec v depth]
    resolve_mentions_fails [of S tk ctx dec v depth]
  by blast

text \<open>
  Token 1 resolves to Token 2 and Token 2 to Token 1. Token 7 resolves to a string that
  embeds Token 7, under the marker encoding. Token 8 resolves to a mapping that holds
  Token 8 behind an unknown Token.
\<close>

theorem resolve_self_reference_fails_witness:
  "resolve decode_marker
     (\<lambda>h. if h = 1 then Some (\<lambda>c. Inr (Tok 2))
           else if h = 2 then Some (\<lambda>c. Inr (Tok 1)) else None)
     \<lparr>current_unit = ''Stack'', current_node = [''Stack'', ''Database'']\<rparr> 200 (Tok 1)
     = Inl CircularOrRunawayToken
   \<and> resolve decode_marker
     (\<lambda>h. if h = 7 then Some (\<lambda>c. Inr (Primitive (String ''name-${Token[7]}-suffix'')))
           else None)
     \<lparr>current_unit = ''Stack'', current_node = [''Stack'', ''Database'']\<rparr> 200
     (Sequence [Primitive (String ''mysql''), Primitive (String ''name-${Token[7]}-suffix'')])
     = Inl CircularOrRunawayToken
   \<and> isl (resolve decode_marker
     (\<lambda>h. if h = 8 then Some (\<lambda>c. Inr (Mapping [(''Other'', Tok 9), (''Ref'', Tok 8)]))
           else None)
     \<lparr>current_unit = ''Stack'', current_node = [''Stack'', ''Database'']\<rparr> 200
     (Sequence [Primitive Null, Tok 8]))"
proof -
  let ?tk = "\<lambda>h::nat. if h = 1 then Some (\<lambda>c::resolution_context. Inr (Tok 2))
                else if h = 2 then Some (\<lambda>c. Inr (Tok 1)) else None"
  let ?tk7 = "\<lambda>h::nat. if h = 7
                then Some (\<lambda>c::resolution_context.
                       Inr (Primitive (String ''name-${Token[7]}-suffix'')))
                else None"
  let ?tk8 = "\<lambda>h::nat. if h = 8
                then Some (\<lambda>c::resolution_context.
                       Inr (Mapping [(''Other'', Tok 9), (''Ref'', Tok 8)]))
                else None"
  let ?ctx = "\<lparr>current_unit = ''Stack'', current_node = [''Stack'', ''Database'']\<rparr>"
  let ?v7 = "Sequence [Primitive (String ''mysql''),
                       Primitive (String ''name-${Token[7]}-suffix'')]"
  have h1: "(\<forall>h \<in> {1, 2}. \<exists>r w. ?tk h = Some r \<and> r ?ctx = Inr w
               \<and> leads_to decode_marker {1, 2} w)
            \<and> leads_to decode_marker {1, 2} (Tok 1)"
    by simp
  have h7: "(\<forall>h \<in> {7}. \<exists>r w. ?tk7 h = Some r \<and> r ?ctx = Inr w
               \<and> leads_to decode_marker {7} w)
            \<and> leads_to decode_marker {7} ?v7"
    by (simp del: decode_marker.simps add: decode_marker_example decode_marker_plain)
  have h8: "(\<forall>h \<in> {8}. \<exists>r w. ?tk8 h = Some r \<and> r ?ctx = Inr w
               \<and> mentions decode_marker {8} w)
            \<and> mentions decode_marker {8} (Sequence [Primitive Null, Tok 8])"
    by simp
  from resolve_self_reference_fails
         [where S = "{1, 2}" and tk = ?tk and ctx = ?ctx and dec = decode_marker
            and v = "Tok 1" and depth = 200,
          THEN conjunct1, rule_format, OF h1]
       resolve_self_reference_fails
         [where S = "{7}" and tk = ?tk7 and ctx = ?ctx and dec = decode_marker
            and v = ?v7 and depth = 200,
          THEN conjunct1, rule_format, OF h7]
       resolve_self_reference_fails
         [where S = "{8}" and tk = ?tk8 and ctx = ?ctx and dec = decode_marker
            and v = "Sequence [Primitive Null, Tok 8]" and depth = 200,
          THEN conjunct2, rule_format, OF h8]
  show ?thesis by blast
qed

section \<open>Asset archives: entries and their order\<close>

text \<open>Every entry has the pinned date, whatever the order of completion.\<close>

lemma zipDirectory_dates_pinned:
  "list_all (\<lambda>e. entry_date e = ''1980-01-01T00:00:00.000Z'') (zipDirectory files order)"
  by (simp add: zipDirectory_def append_entry_def list_all_iff)

text \<open>Two runs over the same files give the same entries, as a set.\<close>

lemma zipDirectory_same_entries:
  assumes "completion_order (length files) o1" and "completion_order (length files) o2"
  shows "set (zipDirectory files o1) = set (zipDirectory files o2)"
proof -
  from assms have "set (sort o1) = set (sort o2)"
    by (simp add: completion_order_def)
  then have "set o1 = set o2" by simp
  then show ?thesis by (simp add: zipDirectory_def)
qed

text \<open>When the reads complete in the order of the listing, the archive is in that order.\<close>

lemma zipDirectory_in_listing_order:
  "zipDirectory files [0..<length files] = map append_entry files"
proof -
  have "filter (\<lambda>i. i < length files) [0..<length files] = [0..<length files]"
    by (simp add: filter_id_conv)
  then have "zipDirectory files [0..<length files] = map (\<lambda>i. append_entry (files ! i)) [0..<length files]"
    by (simp add: zipDirectory_def)
  also have "\<dots> = map append_entry (map (\<lambda>i. files ! i) [0..<length files])"
    by simp
  also have "\<dots> = map append_entry files"
    by (simp add: map_nth)
  finally show ?thesis .
qed

text \<open>
  C2 on a directory with the two files \<open>a.txt\<close> and \<open>b.txt\<close>. In one run the read of
  \<open>a.txt\<close> completes first, in another the read of \<open>b.txt\<close>: both are orders of
  completion of the two tasks, and the two archives differ in the order of their
  entries.
\<close>

theorem zipDirectory_order_depends_on_completion:
  "completion_order 2 [0, 1] \<and> completion_order 2 [1, 0]
   \<and> zipDirectory
       [\<lparr>file_name = ''a.txt'', file_data = ''aaaaaaaa'', file_mode = 420\<rparr>,
        \<lparr>file_name = ''b.txt'', file_data = ''b'', file_mode = 420\<rparr>] [0, 1]
     = [\<lparr>entry_name = ''a.txt'', entry_data = ''aaaaaaaa'',
         entry_date = ''1980-01-01T00:00:00.000Z'', entry_mode = 420\<rparr>,
        \<lparr>entry_name = ''b.txt'', entry_data = ''b'',
         entry_date = ''1980-01-01T00:00:00.000Z'', entry_mode = 420\<rparr>]
   \<and> zipDirectory
       [\<lparr>file_name = ''a.txt'', file_data = ''aaaaaaaa'', file_mode = 420\<rparr>,
        \<lparr>file_name = ''b.txt'', file_data = ''b'', file_mode = 420\<rparr>] [1, 0]
     = [\<lparr>entry_name = ''b.txt'', entry_data = ''b'',
         entry_date = ''1980-01-01T00:00:00.000Z'', entry_mode = 420\<rparr>,
        \<lparr>entry_name = ''a.txt'', entry_data = ''aaaaaaaa'',
         entry_date = ''1980-01-01T00:00:00.000Z'', entry_mode = 420\<rparr>]
   \<and> zipDirectory
       [\<lparr>file_name = ''a.txt'', file_data = ''aaaaaaaa'', file_mode = 420\<rparr>,
        \<lparr>file_name = ''b.txt'', file_data = ''b'', file_mode = 420\<rparr>] [0, 1]
     \<noteq> zipDirectory
       [\<lparr>file_name = ''a.txt'', file_data = ''aaaaaaaa'', file_mode = 420\<rparr>,
        \<lparr>file_name = ''b.txt'', file_data = ''b'', file_mode = 420\<rparr>] [1, 0]"
proof -
  have two: "[0..<2] = [0, Suc 0]"
    by (simp add: upt_conv_Cons numeral_2_eq_2)
  have "completion_order 2 [0, 1]" "completion_order 2 [1, 0]"
    by (simp_all add: completion_order_def two)
  then show ?thesis
    by (simp add: zipDirectory_def append_entry_def)
qed

end
